theory Spec2Isabelle
  imports Main "HOL-Library.AList"
begin

section \<open>Python values\<close>

text \<open>
  The model layer of flowlib (\<^verbatim>\<open>flowlib/model.py\<close>) works on the nested data a YAML
  loader produces: scalars, sequences and mappings. A mapping is kept as an association
  list in insertion order, as a Python \<^verbatim>\<open>dict\<close> is; its keys are strings, which is what
  the keyword expansion \<^verbatim>\<open>**elem_dict\<close> of the source needs. A float behaves in this
  module as an integer does (a truth value, no length, no items) and has no constructor
  of its own.
\<close>

datatype pyval =
    PNone
  | PBool bool
  | PInt int
  | PStr string
  | PList "pyval list"
  | PDict "(string \<times> pyval) list"

type_synonym kwargs = "(string \<times> pyval) list"

text \<open>
  Every \<^verbatim>\<open>raise\<close> of the module and every exception the interpreter raises inside it
  is a value. \<^verbatim>\<open>FlowLibException\<close> is the module's own exception class; the others are
  Python's built-in ones.
\<close>

datatype py_error =
    FlowLibException
  | TypeError
  | KeyError
  | AttributeError
  | IndexError
  | ValueError

text \<open>Truth value testing, as \<^verbatim>\<open>if x:\<close> and \<^verbatim>\<open>not x\<close> do it.\<close>

fun truthy :: "pyval \<Rightarrow> bool" where
  "truthy PNone = False"
| "truthy (PBool b) = b"
| "truthy (PInt i) = (i \<noteq> 0)"
| "truthy (PStr s) = (s \<noteq> [])"
| "truthy (PList xs) = (xs \<noteq> [])"
| "truthy (PDict kvs) = (kvs \<noteq> [])"

text \<open>\<^verbatim>\<open>len(x)\<close>: defined on strings, lists and dicts, a \<^verbatim>\<open>TypeError\<close> elsewhere.\<close>

fun py_len :: "pyval \<Rightarrow> py_error + nat" where
  "py_len (PStr s) = Inr (length s)"
| "py_len (PList xs) = Inr (length xs)"
| "py_len (PDict kvs) = Inr (length kvs)"
| "py_len PNone = Inl TypeError"
| "py_len (PBool b) = Inl TypeError"
| "py_len (PInt i) = Inl TypeError"

text \<open>\<^verbatim>\<open>needle in s\<close> on two strings is the substring test.\<close>

fun is_substring :: "string \<Rightarrow> string \<Rightarrow> bool" where
  "is_substring needle [] = (needle = [])"
| "is_substring needle (c # cs) =
     (take (length needle) (c # cs) = needle \<or> is_substring needle cs)"

text \<open>
  \<^verbatim>\<open>k in x\<close> for a string \<^verbatim>\<open>k\<close>: substring test on a string, membership on a
  list, key membership on a dict, and a \<^verbatim>\<open>TypeError\<close> on a value that is not iterable.
\<close>

fun py_in :: "string \<Rightarrow> pyval \<Rightarrow> py_error + bool" where
  "py_in k (PStr s) = Inr (is_substring k s)"
| "py_in k (PList xs) = Inr (PStr k \<in> set xs)"
| "py_in k (PDict kvs) = Inr (map_of kvs k \<noteq> None)"
| "py_in k PNone = Inl TypeError"
| "py_in k (PBool b) = Inl TypeError"
| "py_in k (PInt i) = Inl TypeError"

text \<open>
  Dictionary operations: \<^verbatim>\<open>d.get(k)\<close> (\<^verbatim>\<open>None\<close> when the key is absent),
  \<^verbatim>\<open>d[k] = v\<close> (\<^const>\<open>AList.update\<close>: an existing key keeps its place, a new one
  goes last) and the removal that \<^verbatim>\<open>d.pop(k)\<close> performs (\<^const>\<open>AList.delete\<close>).
\<close>

definition dict_get :: "kwargs \<Rightarrow> string \<Rightarrow> pyval" where
  "dict_get d k = (case map_of d k of None \<Rightarrow> PNone | Some v \<Rightarrow> v)"

text \<open>
  Binding a keyword expansion \<^verbatim>\<open>f(**kw)\<close> to a signature: every key must be a
  parameter name and every parameter without a default must be given; otherwise the call
  raises \<^verbatim>\<open>TypeError\<close> before the body runs.
\<close>

definition bind_kwargs :: "string list \<Rightarrow> string list \<Rightarrow> kwargs \<Rightarrow> bool" where
  "bind_kwargs required optional kw =
     (list_all (\<lambda>k. k \<in> set (required @ optional)) (map fst kw) \<and>
      list_all (\<lambda>r. map_of kw r \<noteq> None) required)"

text \<open>The value a parameter is bound to: the keyword's value, or the default.\<close>

definition kwarg :: "kwargs \<Rightarrow> string \<Rightarrow> pyval \<Rightarrow> pyval" where
  "kwarg kw k dflt = (case map_of kw k of None \<Rightarrow> dflt | Some v \<Rightarrow> v)"

text \<open>The path delimiter is a string of one character; the model keeps the character.\<close>

definition PG_NAME_DELIMETER :: char where
  "PG_NAME_DELIMETER = CHR ''/''"

section \<open>Connection\<close>

record Connection =
  conn_name :: pyval
  from_port :: pyval
  to_port :: pyval
  relationships :: pyval

text \<open>
  \<^verbatim>\<open>Connection(**c)\<close>: the expansion needs a mapping; the signature is
  \<^verbatim>\<open>(name, from_port=None, to_port=None, relationships=None)\<close>.
\<close>

definition Connection_init :: "pyval \<Rightarrow> py_error + Connection" where
  "Connection_init c =
     (case c of
        PDict kw \<Rightarrow>
          if bind_kwargs [''name''] [''from_port'', ''to_port'', ''relationships''] kw
          then Inr \<lparr>conn_name = kwarg kw ''name'' PNone,
                    from_port = kwarg kw ''from_port'' PNone,
                    to_port = kwarg kw ''to_port'' PNone,
                    relationships = kwarg kw ''relationships'' PNone\<rparr>
          else Inl TypeError
      | _ \<Rightarrow> Inl TypeError)"

text \<open>The comprehension \<^verbatim>\<open>[Connection(**c) for c in connections]\<close> over a list.\<close>

fun Connection_list :: "pyval list \<Rightarrow> py_error + Connection list" where
  "Connection_list [] = Inr []"
| "Connection_list (c # cs) =
     (case Connection_init c of
        Inl e \<Rightarrow> Inl e
      | Inr x \<Rightarrow>
          (case Connection_list cs of
             Inl e \<Rightarrow> Inl e
           | Inr xs \<Rightarrow> Inr (x # xs)))"

text \<open>
  The expression every variant constructor stores in \<^verbatim>\<open>self.connections\<close>
  (lines 174, 189, 208, 218):
  \<^verbatim>\<open>[Connection(**c) for c in connections] if connections else None\<close>.
  A truthy value that is not a list is a non-empty string or dict (whose items are strings,
  so the expansion \<^verbatim>\<open>**c\<close> raises \<^verbatim>\<open>TypeError\<close>) or a number (not iterable,
  \<^verbatim>\<open>TypeError\<close>).
\<close>

definition build_connections :: "pyval \<Rightarrow> py_error + Connection list option" where
  "build_connections connections =
     (if truthy connections then
        (case connections of
           PList cs \<Rightarrow>
             (case Connection_list cs of Inl e \<Rightarrow> Inl e | Inr xs \<Rightarrow> Inr (Some xs))
         | _ \<Rightarrow> Inl TypeError)
      else Inr None)"

section \<open>Element configuration\<close>

text \<open>
  \<^verbatim>\<open>ProcessorConfig\<close>, \<^verbatim>\<open>ControllerServiceConfig\<close> and \<^verbatim>\<open>ReportingTaskConfig\<close>
  each extend a DTO class of the NiFi client library by one field, \<^verbatim>\<open>package_id\<close>.
  The DTO classes are not part of this repository: the constructor of the DTO is a
  parameter \<open>dto_init\<close> of the model, from the keyword arguments to an error or a DTO of
  an arbitrary type \<open>'c\<close>.
\<close>

record 'c ElementConfig =
  package_id :: pyval
  dto :: 'c

type_synonym 'c ProcessorConfig = "'c ElementConfig"
type_synonym 'c ControllerServiceConfig = "'c ElementConfig"
type_synonym 'c ReportingTaskConfig = "'c ElementConfig"

text \<open>
  The two statements shared by \<^verbatim>\<open>Processor.__init__\<close>, \<^verbatim>\<open>Controller.__init__\<close> and
  \<^verbatim>\<open>ReportingTask.__init__\<close>:
  \<^verbatim>\<open>
  if not 'properties' in config:
      config['properties'] = dict()
  self.config = XConfig(config.pop('package_id'), **config)
  \<close>
  They mutate the caller's \<^verbatim>\<open>config\<close> object, so the model returns its final state
  next to the result. On a value that is not a dict: the membership test raises
  \<^verbatim>\<open>TypeError\<close> on \<^verbatim>\<open>None\<close> and numbers; a string or list without the item
  fails at the item assignment (\<^verbatim>\<open>TypeError\<close>); a list with the item fails at
  \<^verbatim>\<open>pop('package_id')\<close> (\<^verbatim>\<open>TypeError\<close>: the index is not an integer) and a string
  with it has no \<^verbatim>\<open>pop\<close> at all (\<^verbatim>\<open>AttributeError\<close>).
\<close>

definition make_config ::
  "(kwargs \<Rightarrow> py_error + 'c) \<Rightarrow> pyval \<Rightarrow> (py_error + 'c ElementConfig) \<times> pyval" where
  "make_config dto_init config =
     (case config of
        PDict c \<Rightarrow>
          (let c1 = (if map_of c ''properties'' = None
                     then AList.update ''properties'' (PDict []) c else c)
           in case map_of c1 ''package_id'' of
                None \<Rightarrow> (Inl KeyError, PDict c1)
              | Some pkg \<Rightarrow>
                  (let c2 = AList.delete ''package_id'' c1
                   in case dto_init c2 of
                        Inl e \<Rightarrow> (Inl e, PDict c2)
                      | Inr d \<Rightarrow> (Inr \<lparr>package_id = pkg, dto = d\<rparr>, PDict c2)))
      | PStr s \<Rightarrow>
          (if is_substring ''properties'' s then (Inl AttributeError, config)
           else (Inl TypeError, config))
      | _ \<Rightarrow> (Inl TypeError, config))"

section \<open>Flow elements\<close>

text \<open>
  The four subclasses of \<^verbatim>\<open>FlowElement\<close>. Each constructor of the source sets the
  common attributes itself (\<^verbatim>\<open>_id\<close>, \<^verbatim>\<open>_parent_id\<close>, \<^verbatim>\<open>name\<close>, \<^verbatim>\<open>parent_path\<close>,
  \<^verbatim>\<open>_type\<close>, \<^verbatim>\<open>connections\<close>); a leading underscore of the source is written
  \<open>priv_\<close>. The attribute values are whatever the record held: nothing converts them.
\<close>

datatype 'c FlowElement =
    ProcessGroup
      (priv_id: pyval) (priv_parent_id: pyval) (name: pyval) (parent_path: pyval)
      (priv_type: pyval) (component_ref: pyval) (controllers: pyval) (vars: pyval)
      (connections: "Connection list option") (elements: "(string \<times> 'c FlowElement) list")
  | Processor
      (priv_id: pyval) (priv_parent_id: pyval) (name: pyval) (parent_path: pyval)
      (priv_type: pyval) (config: "'c ProcessorConfig")
      (connections: "Connection list option")
  | InputPort
      (priv_id: pyval) (priv_parent_id: pyval) (name: pyval) (parent_path: pyval)
      (priv_type: pyval) (connections: "Connection list option")
  | OutputPort
      (priv_id: pyval) (priv_parent_id: pyval) (name: pyval) (parent_path: pyval)
      (priv_type: pyval) (connections: "Connection list option")

text \<open>
  The class of an element, named by the tag that selects it in \<^verbatim>\<open>from_dict\<close>.
\<close>

fun variant_tag :: "'c FlowElement \<Rightarrow> string" where
  "variant_tag (ProcessGroup i p n pp t cr ct vs cs es) = ''process_group''"
| "variant_tag (Processor i p n pp t cfg cs) = ''processor''"
| "variant_tag (InputPort i p n pp t cs) = ''input_port''"
| "variant_tag (OutputPort i p n pp t cs) = ''output_port''"

text \<open>
  \<^verbatim>\<open>ProcessGroup.__init__(self, name, parent_path, _type, component_ref,
  controllers=dict(), _vars=None, connections=None)\<close>, called as
  \<^verbatim>\<open>ProcessGroup(**kw)\<close>. The group's \<^verbatim>\<open>elements\<close> start as an empty dict.

  The default of \<^verbatim>\<open>controllers\<close> is one dict object, made once when the class is
  defined and stored in the element uncopied (line 172). An omitted argument is therefore
  bound to whatever that object holds at the time of the call: the parameter
  \<open>controllers_default\<close>, the empty dict until some holder of the object mutates it.
\<close>

definition ProcessGroup_init :: "pyval \<Rightarrow> kwargs \<Rightarrow> py_error + 'c FlowElement" where
  "ProcessGroup_init controllers_default kw =
     (if \<not> bind_kwargs [''name'', ''parent_path'', ''_type'', ''component_ref'']
              [''controllers'', ''_vars'', ''connections''] kw
      then Inl TypeError
      else case build_connections (kwarg kw ''connections'' PNone) of
             Inl e \<Rightarrow> Inl e
           | Inr cs \<Rightarrow>
               Inr (ProcessGroup PNone PNone (kwarg kw ''name'' PNone)
                      (kwarg kw ''parent_path'' PNone) (kwarg kw ''_type'' PNone)
                      (kwarg kw ''component_ref'' PNone)
                      (kwarg kw ''controllers'' controllers_default)
                      (kwarg kw ''_vars'' PNone) cs []))"

text \<open>
  \<^verbatim>\<open>Processor.__init__(self, name, parent_path, _type, config, connections=None)\<close>.
  The body handles \<^verbatim>\<open>config\<close> first (mutating it) and the connections last; the
  second component is the keyword dict with the \<^verbatim>\<open>config\<close> object in its final state.
\<close>

definition Processor_init ::
  "(kwargs \<Rightarrow> py_error + 'c) \<Rightarrow> kwargs \<Rightarrow> (py_error + 'c FlowElement) \<times> kwargs" where
  "Processor_init dto_init kw =
     (if \<not> bind_kwargs [''name'', ''parent_path'', ''_type'', ''config''] [''connections''] kw
      then (Inl TypeError, kw)
      else case make_config dto_init (kwarg kw ''config'' PNone) of
             (Inl e, config') \<Rightarrow> (Inl e, AList.update ''config'' config' kw)
           | (Inr cfg, config') \<Rightarrow>
               (case build_connections (kwarg kw ''connections'' PNone) of
                  Inl e \<Rightarrow> (Inl e, AList.update ''config'' config' kw)
                | Inr cs \<Rightarrow>
                    (Inr (Processor PNone PNone (kwarg kw ''name'' PNone)
                            (kwarg kw ''parent_path'' PNone) (kwarg kw ''_type'' PNone) cfg cs),
                     AList.update ''config'' config' kw)))"

text \<open>\<^verbatim>\<open>InputPort.__init__(self, name, parent_path, _type, connections=None)\<close>.\<close>

definition InputPort_init :: "kwargs \<Rightarrow> py_error + 'c FlowElement" where
  "InputPort_init kw =
     (if \<not> bind_kwargs [''name'', ''parent_path'', ''_type''] [''connections''] kw
      then Inl TypeError
      else case build_connections (kwarg kw ''connections'' PNone) of
             Inl e \<Rightarrow> Inl e
           | Inr cs \<Rightarrow>
               Inr (InputPort PNone PNone (kwarg kw ''name'' PNone)
                      (kwarg kw ''parent_path'' PNone) (kwarg kw ''_type'' PNone) cs))"

text \<open>\<^verbatim>\<open>OutputPort.__init__(self, name, parent_path, _type, connections=None)\<close>.\<close>

definition OutputPort_init :: "kwargs \<Rightarrow> py_error + 'c FlowElement" where
  "OutputPort_init kw =
     (if \<not> bind_kwargs [''name'', ''parent_path'', ''_type''] [''connections''] kw
      then Inl TypeError
      else case build_connections (kwarg kw ''connections'' PNone) of
             Inl e \<Rightarrow> Inl e
           | Inr cs \<Rightarrow>
               Inr (OutputPort PNone PNone (kwarg kw ''name'' PNone)
                      (kwarg kw ''parent_path'' PNone) (kwarg kw ''_type'' PNone) cs))"

section \<open>The factory \<^verbatim>\<open>FlowElement.from_dict\<close>\<close>

text \<open>
  Lines 106 to 129. The function mutates the record it is given
  (\<^verbatim>\<open>elem_dict['_type'] = elem_dict.pop('type')\<close>, and the same for \<^verbatim>\<open>vars\<close>), so
  the model returns the record's final state as the second component; the first is the
  exception raised or the element returned.

  The message of the third \<^verbatim>\<open>raise\<close> (line 115) is formatted with
  \<^verbatim>\<open>Flow.PG_DELIMETER\<close>. The class \<^verbatim>\<open>Flow\<close> has no such attribute (the delimiter is
  the module constant \<^verbatim>\<open>PG_NAME_DELIMETER\<close>), so evaluating the argument raises
  \<^verbatim>\<open>AttributeError\<close> before any \<^verbatim>\<open>FlowLibException\<close> is built.

  The parameter \<open>controllers_default\<close> is the state of the default dict of
  \<^verbatim>\<open>ProcessGroup.__init__\<close>, which the factory passes on.
\<close>

definition from_dict ::
  "(kwargs \<Rightarrow> py_error + 'c) \<Rightarrow> pyval \<Rightarrow> pyval \<Rightarrow> (py_error + 'c FlowElement) \<times> pyval"
  where
  "from_dict dto_init controllers_default elem_dict =
     (case elem_dict of
        PDict d \<Rightarrow>
          if \<not> truthy (dict_get d ''type'') then (Inl FlowLibException, elem_dict)
          else
            (let name = dict_get d ''name'' in
             if \<not> truthy name then (Inl FlowLibException, elem_dict)
             else
               (case py_len name of
                  Inl e \<Rightarrow> (Inl e, elem_dict)
                | Inr n \<Rightarrow>
                    if n < 1 then (Inl FlowLibException, elem_dict)
                    else
                      (case py_in [PG_NAME_DELIMETER] name of
                         Inl e \<Rightarrow> (Inl e, elem_dict)
                       | Inr True \<Rightarrow> (Inl AttributeError, elem_dict)
                       | Inr False \<Rightarrow>
                           (let d1 = AList.update ''_type'' (dict_get d ''type'')
                                       (AList.delete ''type'' d)
                            in if dict_get d1 ''_type'' = PStr ''process_group'' then
                                 (let d2 = (if truthy (dict_get d1 ''vars'')
                                            then AList.update ''_vars'' (dict_get d1 ''vars'')
                                                   (AList.delete ''vars'' d1)
                                            else d1)
                                  in (ProcessGroup_init controllers_default d2, PDict d2))
                               else if dict_get d1 ''_type'' = PStr ''processor'' then
                                 (case Processor_init dto_init d1 of
                                    (r, d2) \<Rightarrow> (r, PDict d2))
                               else if dict_get d1 ''_type'' = PStr ''input_port'' then
                                 (InputPort_init d1, PDict d1)
                               else if dict_get d1 ''_type'' = PStr ''output_port'' then
                                 (OutputPort_init d1, PDict d1)
                               else (Inl FlowLibException, PDict d1)))))
      | _ \<Rightarrow> (Inl FlowLibException, elem_dict))"

section \<open>Write-once identities\<close>

text \<open>
  \<^verbatim>\<open>Controller\<close> (lines 232 to 263) and \<^verbatim>\<open>ReportingTask\<close> (lines 275 to 295).
  A controller has \<^verbatim>\<open>_id\<close> and \<^verbatim>\<open>_parent_id\<close>; a reporting task has \<^verbatim>\<open>_id\<close>
  only, and the class defines no \<^verbatim>\<open>parent_id\<close> property.
\<close>

record 's Controller =
  ctl_priv_id :: pyval
  ctl_priv_parent_id :: pyval
  ctl_name :: pyval
  ctl_config :: "'s ControllerServiceConfig"

record 'r ReportingTask =
  rt_priv_id :: pyval
  rt_name :: pyval
  rt_config :: "'r ReportingTaskConfig"

text \<open>
  \<^verbatim>\<open>Controller(name, config)\<close> and \<^verbatim>\<open>ReportingTask(name, config)\<close>; the second
  component is the final state of the caller's \<^verbatim>\<open>config\<close> object.
\<close>

definition Controller_init ::
  "(kwargs \<Rightarrow> py_error + 's) \<Rightarrow> pyval \<Rightarrow> pyval \<Rightarrow> (py_error + 's Controller) \<times> pyval" where
  "Controller_init dto_init nm cfg =
     (case make_config dto_init cfg of
        (Inl e, cfg') \<Rightarrow> (Inl e, cfg')
      | (Inr c, cfg') \<Rightarrow>
          (Inr \<lparr>ctl_priv_id = PNone, ctl_priv_parent_id = PNone, ctl_name = nm, ctl_config = c\<rparr>,
           cfg'))"

definition ReportingTask_init ::
  "(kwargs \<Rightarrow> py_error + 'r) \<Rightarrow> pyval \<Rightarrow> pyval \<Rightarrow> (py_error + 'r ReportingTask) \<times> pyval" where
  "ReportingTask_init dto_init nm cfg =
     (case make_config dto_init cfg of
        (Inl e, cfg') \<Rightarrow> (Inl e, cfg')
      | (Inr c, cfg') \<Rightarrow> (Inr \<lparr>rt_priv_id = PNone, rt_name = nm, rt_config = c\<rparr>, cfg'))"

text \<open>Assignment to the backing attributes \<^verbatim>\<open>_id\<close> and \<^verbatim>\<open>_parent_id\<close> of an element.\<close>

fun assign_priv_id :: "pyval \<Rightarrow> 'c FlowElement \<Rightarrow> 'c FlowElement" where
  "assign_priv_id v (ProcessGroup i p n pp t cr ct vs cs es) = ProcessGroup v p n pp t cr ct vs cs es"
| "assign_priv_id v (Processor i p n pp t cfg cs) = Processor v p n pp t cfg cs"
| "assign_priv_id v (InputPort i p n pp t cs) = InputPort v p n pp t cs"
| "assign_priv_id v (OutputPort i p n pp t cs) = OutputPort v p n pp t cs"

fun assign_priv_parent_id :: "pyval \<Rightarrow> 'c FlowElement \<Rightarrow> 'c FlowElement" where
  "assign_priv_parent_id v (ProcessGroup i p n pp t cr ct vs cs es) =
     ProcessGroup i v n pp t cr ct vs cs es"
| "assign_priv_parent_id v (Processor i p n pp t cfg cs) = Processor i v n pp t cfg cs"
| "assign_priv_parent_id v (InputPort i p n pp t cs) = InputPort i v n pp t cs"
| "assign_priv_parent_id v (OutputPort i p n pp t cs) = OutputPort i v n pp t cs"

text \<open>
  The properties \<^verbatim>\<open>id\<close> and \<^verbatim>\<open>parent_id\<close> of \<^verbatim>\<open>FlowElement\<close> (lines 131 to 149),
  inherited by the four variants. The getter returns the backing attribute; the setter
  raises when the backing attribute is truthy (\<^verbatim>\<open>if self._id:\<close>) and stores the value
  otherwise.
\<close>

definition FlowElement_id :: "'c FlowElement \<Rightarrow> pyval" where
  "FlowElement_id self = priv_id self"

definition FlowElement_id_setter :: "'c FlowElement \<Rightarrow> pyval \<Rightarrow> py_error + 'c FlowElement" where
  "FlowElement_id_setter self v =
     (if truthy (priv_id self) then Inl FlowLibException else Inr (assign_priv_id v self))"

definition FlowElement_parent_id :: "'c FlowElement \<Rightarrow> pyval" where
  "FlowElement_parent_id self = priv_parent_id self"

definition FlowElement_parent_id_setter ::
  "'c FlowElement \<Rightarrow> pyval \<Rightarrow> py_error + 'c FlowElement" where
  "FlowElement_parent_id_setter self v =
     (if truthy (priv_parent_id self) then Inl FlowLibException
      else Inr (assign_priv_parent_id v self))"

text \<open>The same two properties of \<^verbatim>\<open>Controller\<close> (lines 242 to 260).\<close>

definition Controller_id :: "'s Controller \<Rightarrow> pyval" where
  "Controller_id self = ctl_priv_id self"

definition Controller_id_setter :: "'s Controller \<Rightarrow> pyval \<Rightarrow> py_error + 's Controller" where
  "Controller_id_setter self v =
     (if truthy (ctl_priv_id self) then Inl FlowLibException
      else Inr (self\<lparr>ctl_priv_id := v\<rparr>))"

definition Controller_parent_id :: "'s Controller \<Rightarrow> pyval" where
  "Controller_parent_id self = ctl_priv_parent_id self"

definition Controller_parent_id_setter ::
  "'s Controller \<Rightarrow> pyval \<Rightarrow> py_error + 's Controller" where
  "Controller_parent_id_setter self v =
     (if truthy (ctl_priv_parent_id self) then Inl FlowLibException
      else Inr (self\<lparr>ctl_priv_parent_id := v\<rparr>))"

text \<open>The one property of \<^verbatim>\<open>ReportingTask\<close>, \<^verbatim>\<open>id\<close> (lines 284 to 292).\<close>

definition ReportingTask_id :: "'r ReportingTask \<Rightarrow> pyval" where
  "ReportingTask_id self = rt_priv_id self"

definition ReportingTask_id_setter ::
  "'r ReportingTask \<Rightarrow> pyval \<Rightarrow> py_error + 'r ReportingTask" where
  "ReportingTask_id_setter self v =
     (if truthy (rt_priv_id self) then Inl FlowLibException
      else Inr (self\<lparr>rt_priv_id := v\<rparr>))"

section \<open>The flow\<close>

text \<open>
  \<^verbatim>\<open>Flow\<close> (lines 13 to 73), with the attributes its two methods read:
  \<^verbatim>\<open>controllers\<close> and \<^verbatim>\<open>elements\<close>, the dict from a name to the element of that
  name. The other attributes are data no method of the module reads.

  The constructor sets \<^verbatim>\<open>controllers\<close> to \<^verbatim>\<open>None\<close>. Its docstring (lines 24 and
  25) types the attribute as a dict from a name to a \<^verbatim>\<open>Controller\<close>;
  \<^verbatim>\<open>find_controller_by_name\<close> reads \<^verbatim>\<open>c.name\<close> on each item, as on a sequence of
  \<^verbatim>\<open>Controller\<close> objects. The model has the three.
\<close>

datatype 's controllers =
    NoControllers
  | ControllerSeq "'s Controller list"
  | ControllerMap "(string \<times> 's Controller) list"

record ('c, 's) Flow =
  flow_name :: pyval
  flowlib_version :: pyval
  version :: pyval
  flow_controllers :: "'s controllers"
  flow_elements :: "(string \<times> 'c FlowElement) list"

definition Flow_init :: "('c, 's) Flow" where
  "Flow_init =
     \<lparr>flow_name = PNone, flowlib_version = PNone, version = PNone,
      flow_controllers = NoControllers, flow_elements = []\<rparr>"

text \<open>
  \<^verbatim>\<open>list(filter(lambda c: c.name == name, self.controllers))[0]\<close> (line 59): filtering
  \<^verbatim>\<open>None\<close> raises \<^verbatim>\<open>TypeError\<close>, indexing an empty list raises \<^verbatim>\<open>IndexError\<close>.
  The query is a string, so \<^verbatim>\<open>c.name == name\<close> holds when \<^verbatim>\<open>c.name\<close> is that string.
  Iterating a dict yields its keys, which are strings and have no \<^verbatim>\<open>name\<close>: on a
  dict with an entry the first test raises \<^verbatim>\<open>AttributeError\<close>, on an empty dict
  nothing is tested and the index raises.
\<close>

definition find_controller_by_name ::
  "('c, 's) Flow \<Rightarrow> string \<Rightarrow> py_error + 's Controller" where
  "find_controller_by_name self nm =
     (case flow_controllers self of
        NoControllers \<Rightarrow> Inl TypeError
      | ControllerSeq cs \<Rightarrow>
          (case filter (\<lambda>c. ctl_name c = PStr nm) cs of
             [] \<Rightarrow> Inl IndexError
           | c # _ \<Rightarrow> Inr c)
      | ControllerMap m \<Rightarrow> (if m = [] then Inl IndexError else Inl AttributeError))"

text \<open>\<^verbatim>\<open>s.split(sep)\<close> for a separator of one character.\<close>

fun split :: "char \<Rightarrow> string \<Rightarrow> string list" where
  "split sep [] = [[]]"
| "split sep (c # cs) =
     (if c = sep then [] # split sep cs
      else (case split sep cs of
              [] \<Rightarrow> [[c]]
            | w # ws \<Rightarrow> (c # w) # ws))"

text \<open>
  What \<^verbatim>\<open>target\<close> can be bound to in \<^verbatim>\<open>get_parent_element\<close>: the flow itself, an
  element, or \<^verbatim>\<open>None\<close>. Reading \<^verbatim>\<open>target.elements\<close> works on the flow and on a
  process group; the other variants and \<^verbatim>\<open>None\<close> have no such attribute.
\<close>

datatype ('c, 's) target =
    TFlow "('c, 's) Flow"
  | TElement "'c FlowElement"
  | TNone

fun target_elements :: "('c, 's) target \<Rightarrow> py_error + (string \<times> 'c FlowElement) list" where
  "target_elements (TFlow f) = Inr (flow_elements f)"
| "target_elements (TElement (ProcessGroup i p n pp t cr ct vs cs es)) = Inr es"
| "target_elements (TElement (Processor i p n pp t cfg cs)) = Inl AttributeError"
| "target_elements (TElement (InputPort i p n pp t cs)) = Inl AttributeError"
| "target_elements (TElement (OutputPort i p n pp t cs)) = Inl AttributeError"
| "target_elements TNone = Inl AttributeError"

text \<open>\<^verbatim>\<open>elements.get(n)\<close>: the element under the key, or \<^verbatim>\<open>None\<close>.\<close>

definition elements_get :: "(string \<times> 'c FlowElement) list \<Rightarrow> string \<Rightarrow> ('c, 's) target" where
  "elements_get es n = (case map_of es n of None \<Rightarrow> TNone | Some e \<Rightarrow> TElement e)"

text \<open>
  The loop of \<^verbatim>\<open>get_parent_element\<close> (lines 70 to 72):
  \<^verbatim>\<open>
  for n in names[1:]:
      elements = target.elements
      target = elements.get(n)
  \<close>
\<close>

fun descend :: "('c, 's) target \<Rightarrow> string list \<Rightarrow> py_error + ('c, 's) target" where
  "descend tgt [] = Inr tgt"
| "descend tgt (n # ns) =
     (case target_elements tgt of
        Inl e \<Rightarrow> Inl e
      | Inr es \<Rightarrow> descend (elements_get es n) ns)"

text \<open>
  \<^verbatim>\<open>Flow.get_parent_element\<close> (lines 62 to 73). A \<^verbatim>\<open>parent_path\<close> that is not a
  string has no \<^verbatim>\<open>split\<close> method.
\<close>

definition get_parent_element ::
  "('c, 's) Flow \<Rightarrow> 'c FlowElement \<Rightarrow> py_error + ('c, 's) target" where
  "get_parent_element self element =
     (case parent_path element of
        PStr s \<Rightarrow> descend (TFlow self) (drop 1 (split PG_NAME_DELIMETER s))
      | _ \<Rightarrow> Inl AttributeError)"

section \<open>Write-once identities: what the guards give\<close>

lemma assign_priv_id_sel [simp]: "priv_id (assign_priv_id v e) = v"
  by (cases e) simp_all

lemma assign_priv_parent_id_sel [simp]: "priv_parent_id (assign_priv_parent_id v e) = v"
  by (cases e) simp_all

text \<open>
  Claim C1, as the code has it. On an instance whose backing attribute is still unset
  (falsy, as every constructor leaves it), assigning \<open>v\<close> to \<^verbatim>\<open>id\<close> succeeds and a
  read returns \<open>v\<close>; if \<open>v\<close> is truthy, every later assignment of any \<open>w\<close>, equal to
  \<open>v\<close> or not, raises \<^verbatim>\<open>FlowLibException\<close>. The same holds for \<^verbatim>\<open>parent_id\<close> of
  an element, for \<^verbatim>\<open>id\<close> and \<^verbatim>\<open>parent_id\<close> of a controller, and for \<^verbatim>\<open>id\<close> of a
  reporting task, the only identity property that class has.
\<close>

theorem identity_write_once:
  "(\<not> truthy (priv_id e) \<longrightarrow>
      (\<exists>e'. FlowElement_id_setter e v = Inr e' \<and> FlowElement_id e' = v \<and>
            (truthy v \<longrightarrow> FlowElement_id_setter e' w = Inl FlowLibException))) \<and>
   (\<not> truthy (priv_parent_id e) \<longrightarrow>
      (\<exists>e'. FlowElement_parent_id_setter e v = Inr e' \<and> FlowElement_parent_id e' = v \<and>
            (truthy v \<longrightarrow> FlowElement_parent_id_setter e' w = Inl FlowLibException))) \<and>
   (\<not> truthy (ctl_priv_id c) \<longrightarrow>
      (\<exists>c'. Controller_id_setter c v = Inr c' \<and> Controller_id c' = v \<and>
            (truthy v \<longrightarrow> Controller_id_setter c' w = Inl FlowLibException))) \<and>
   (\<not> truthy (ctl_priv_parent_id c) \<longrightarrow>
      (\<exists>c'. Controller_parent_id_setter c v = Inr c' \<and> Controller_parent_id c' = v \<and>
            (truthy v \<longrightarrow> Controller_parent_id_setter c' w = Inl FlowLibException))) \<and>
   (\<not> truthy (rt_priv_id r) \<longrightarrow>
      (\<exists>r'. ReportingTask_id_setter r v = Inr r' \<and> ReportingTask_id r' = v \<and>
            (truthy v \<longrightarrow> ReportingTask_id_setter r' w = Inl FlowLibException)))"
  by (simp add: FlowElement_id_setter_def FlowElement_id_def FlowElement_parent_id_setter_def
      FlowElement_parent_id_def Controller_id_setter_def Controller_id_def
      Controller_parent_id_setter_def Controller_parent_id_def ReportingTask_id_setter_def
      ReportingTask_id_def)

text \<open>
  The theorem at a fresh input port, a fresh controller and a fresh reporting task: the
  identity \<^verbatim>\<open>'id-1'\<close> is stored, and assigning \<^verbatim>\<open>'id-1'\<close> again raises.
\<close>

theorem identity_write_once_witness:
  "FlowElement_id_setter
     (InputPort PNone PNone (PStr ''in'') (PStr ''root'') (PStr ''input_port'') None
        :: unit FlowElement) (PStr ''id-1'')
     = Inr (InputPort (PStr ''id-1'') PNone (PStr ''in'') (PStr ''root'') (PStr ''input_port'') None) \<and>
   FlowElement_id_setter
     (InputPort (PStr ''id-1'') PNone (PStr ''in'') (PStr ''root'') (PStr ''input_port'') None
        :: unit FlowElement) (PStr ''id-1'')
     = Inl FlowLibException \<and>
   Controller_parent_id_setter
     \<lparr>ctl_priv_id = PNone, ctl_priv_parent_id = PNone, ctl_name = PStr ''svc1'',
      ctl_config = \<lparr>package_id = PStr ''pkg'', dto = ()\<rparr>\<rparr> (PStr ''id-1'')
     = Inr \<lparr>ctl_priv_id = PNone, ctl_priv_parent_id = PStr ''id-1'', ctl_name = PStr ''svc1'',
            ctl_config = \<lparr>package_id = PStr ''pkg'', dto = ()\<rparr>\<rparr> \<and>
   Controller_parent_id_setter
     \<lparr>ctl_priv_id = PNone, ctl_priv_parent_id = PStr ''id-1'', ctl_name = PStr ''svc1'',
      ctl_config = \<lparr>package_id = PStr ''pkg'', dto = ()\<rparr>\<rparr> (PStr ''id-1'')
     = Inl FlowLibException \<and>
   ReportingTask_id_setter
     \<lparr>rt_priv_id = PStr ''id-1'', rt_name = PStr ''task'',
      rt_config = \<lparr>package_id = PStr ''pkg'', dto = ()\<rparr>\<rparr> (PStr ''id-1'')
     = Inl FlowLibException"
  using identity_write_once
    [of "InputPort PNone PNone (PStr ''in'') (PStr ''root'') (PStr ''input_port'') None
           :: unit FlowElement"
        "PStr ''id-1''" "PStr ''id-1''"
        "\<lparr>ctl_priv_id = PNone, ctl_priv_parent_id = PNone, ctl_name = PStr ''svc1'',
          ctl_config = \<lparr>package_id = PStr ''pkg'', dto = ()\<rparr>\<rparr>"
        "\<lparr>rt_priv_id = PNone, rt_name = PStr ''task'',
          rt_config = \<lparr>package_id = PStr ''pkg'', dto = ()\<rparr>\<rparr>"]
  by (simp add: FlowElement_id_setter_def Controller_parent_id_setter_def
      ReportingTask_id_setter_def)

text \<open>
  Claim C1 as the specification states it fails: the guard tests the truth value of the
  stored identity, so after a first assignment of the empty string (visible on read) a
  second assignment is accepted.
\<close>

theorem identity_reassign_after_falsy:
  "FlowElement_id_setter
     (InputPort PNone PNone (PStr ''in'') (PStr ''root'') (PStr ''input_port'') None
        :: unit FlowElement) (PStr '''')
     = Inr (InputPort (PStr '''') PNone (PStr ''in'') (PStr ''root'') (PStr ''input_port'') None) \<and>
   FlowElement_id
     (InputPort (PStr '''') PNone (PStr ''in'') (PStr ''root'') (PStr ''input_port'') None
        :: unit FlowElement) = PStr '''' \<and>
   FlowElement_id_setter
     (InputPort (PStr '''') PNone (PStr ''in'') (PStr ''root'') (PStr ''input_port'') None
        :: unit FlowElement) (PStr ''id-2'')
     = Inr (InputPort (PStr ''id-2'') PNone (PStr ''in'') (PStr ''root'') (PStr ''input_port'') None)"
  by (simp add: FlowElement_id_setter_def FlowElement_id_def)

section \<open>Dictionaries and keyword binding\<close>

lemma is_substring_single: "is_substring [c] s \<longleftrightarrow> c \<in> set s"
  by (induction s) auto

lemma dict_get_update: "dict_get (AList.update k v d) k' = (if k' = k then v else dict_get d k')"
  by (simp add: dict_get_def update_conv')

lemma dict_get_delete: "dict_get (AList.delete k d) k' = (if k' = k then PNone else dict_get d k')"
  by (simp add: dict_get_def delete_conv')

lemma kwarg_update: "kwarg (AList.update k v d) k' dflt = (if k' = k then v else kwarg d k' dflt)"
  by (simp add: kwarg_def update_conv')

lemma kwarg_delete: "kwarg (AList.delete k d) k' dflt = (if k' = k then dflt else kwarg d k' dflt)"
  by (simp add: kwarg_def delete_conv')

lemma kwarg_present: "map_of d k \<noteq> None \<Longrightarrow> kwarg d k dflt = dict_get d k"
  by (auto simp add: kwarg_def dict_get_def)

lemma kwarg_None: "kwarg d k PNone = dict_get d k"
  by (simp add: kwarg_def dict_get_def)

lemma bind_kwargs_iff:
  "bind_kwargs required optional kw \<longleftrightarrow>
     fst ` set kw \<subseteq> set required \<union> set optional \<and> set required \<subseteq> fst ` set kw"
  by (auto simp add: bind_kwargs_def list_all_iff map_of_eq_None_iff)

lemma keys_update: "fst ` set (AList.update k v d) = insert k (fst ` set d)"
  using dom_update [of k v d] by (simp add: dom_map_of_conv_image_fst)

lemma keys_delete: "fst ` set (AList.delete k d) = fst ` set d - {k}"
  using delete_keys [of k d] by (metis list.set_map set_removeAll)

lemma truthy_present: "truthy (dict_get d k) \<Longrightarrow> k \<in> fst ` set d"
  by (cases "map_of d k") (auto simp add: dict_get_def dest: map_of_SomeD intro: rev_image_eqI)

lemma bind_kwargsI:
  "fst ` set kw \<subseteq> A \<Longrightarrow> A \<subseteq> set required \<union> set optional \<Longrightarrow>
   set required \<subseteq> fst ` set kw \<Longrightarrow> bind_kwargs required optional kw"
  unfolding bind_kwargs_iff by blast

lemma bind_kwargs_foreign_key:
  "k \<in> fst ` set kw \<Longrightarrow> k \<notin> set required \<Longrightarrow> k \<notin> set optional \<Longrightarrow>
   \<not> bind_kwargs required optional kw"
  unfolding bind_kwargs_iff by blast

lemma keys_renamed:
  "K \<subseteq> insert t (insert u B) \<Longrightarrow> insert u (K - {t}) \<subseteq> insert u B"
  by blast

lemma pg_keys_renamed:
  "K \<subseteq> {t, u, a, b, c, e, v, w, f} \<Longrightarrow>
   insert w (insert u (K - {t}) - {v}) \<subseteq> {u, a, b, c, e, w, f}"
  by blast

lemma pg_keys_plain:
  "K \<subseteq> {t, u, a, b, c, e, v, w, f} \<Longrightarrow> v \<notin> K \<Longrightarrow>
   insert u (K - {t}) \<subseteq> {u, a, b, c, e, w, f}"
  by blast

section \<open>The factory, step by step\<close>




lemma from_dict_delimiter:
  "truthy (dict_get d ''type'') \<Longrightarrow> dict_get d ''name'' = PStr s \<Longrightarrow>
   PG_NAME_DELIMETER \<in> set s \<Longrightarrow>
   from_dict dto_init shared (PDict d) = (Inl AttributeError, PDict d)"
  by (auto simp add: from_dict_def Let_def is_substring_single)

text \<open>
  A record that passes the checks has its \<^verbatim>\<open>type\<close> entry renamed and goes to the
  constructor its tag selects.
\<close>

lemma from_dict_dispatch:
  "truthy (dict_get d ''type'') \<Longrightarrow> dict_get d ''name'' = PStr s \<Longrightarrow> s \<noteq> [] \<Longrightarrow>
   PG_NAME_DELIMETER \<notin> set s \<Longrightarrow>
   from_dict dto_init shared (PDict d) =
     (let d1 = AList.update ''_type'' (dict_get d ''type'') (AList.delete ''type'' d)
      in if dict_get d1 ''_type'' = PStr ''process_group'' then
           (let d2 = (if truthy (dict_get d1 ''vars'')
                      then AList.update ''_vars'' (dict_get d1 ''vars'') (AList.delete ''vars'' d1)
                      else d1)
            in (ProcessGroup_init shared d2, PDict d2))
         else if dict_get d1 ''_type'' = PStr ''processor'' then
           (case Processor_init dto_init d1 of (r, d2) \<Rightarrow> (r, PDict d2))
         else if dict_get d1 ''_type'' = PStr ''input_port'' then (InputPort_init d1, PDict d1)
         else if dict_get d1 ''_type'' = PStr ''output_port'' then (OutputPort_init d1, PDict d1)
         else (Inl FlowLibException, PDict d1))"
  by (simp add: from_dict_def Let_def is_substring_single)

lemma from_dict_unknown_type:
  "truthy (dict_get d ''type'') \<Longrightarrow> dict_get d ''name'' = PStr s \<Longrightarrow> s \<noteq> [] \<Longrightarrow>
   PG_NAME_DELIMETER \<notin> set s \<Longrightarrow>
   dict_get d ''type'' \<noteq> PStr ''process_group'' \<Longrightarrow> dict_get d ''type'' \<noteq> PStr ''processor'' \<Longrightarrow>
   dict_get d ''type'' \<noteq> PStr ''input_port'' \<Longrightarrow> dict_get d ''type'' \<noteq> PStr ''output_port'' \<Longrightarrow>
   fst (from_dict dto_init shared (PDict d)) = Inl FlowLibException"
  by (simp add: from_dict_dispatch Let_def dict_get_update)

text \<open>
  What each tag yields on a record whose keys are parameters of the selected constructor,
  whose required parameters are present and whose connections convert.
\<close>

lemma from_dict_input_port:
  assumes "dict_get d ''type'' = PStr ''input_port''"
    and "dict_get d ''name'' = PStr s" and "s \<noteq> []" and "PG_NAME_DELIMETER \<notin> set s"
    and "''parent_path'' \<in> fst ` set d"
    and "fst ` set d \<subseteq> {''type'', ''_type'', ''name'', ''parent_path'', ''connections''}"
    and "build_connections (dict_get d ''connections'') = Inr cs"
  shows "fst (from_dict dto_init shared (PDict d)) =
           Inr (InputPort PNone PNone (PStr s) (dict_get d ''parent_path'') (PStr ''input_port'') cs)"
proof -
  let ?d1 = "AList.update ''_type'' (PStr ''input_port'') (AList.delete ''type'' d)"
  have ty: "''type'' \<in> fst ` set d" and nm: "''name'' \<in> fst ` set d"
    using assms(1,2) truthy_present [of d "''type''"] truthy_present [of d "''name''"] assms(3)
    by simp_all
  have keys: "fst ` set ?d1 = insert ''_type'' (fst ` set d - {''type''})"
    by (simp add: keys_update keys_delete)
  have bind: "bind_kwargs [''name'', ''parent_path'', ''_type''] [''connections''] ?d1"
    unfolding bind_kwargs_iff keys using assms(5,6) nm by auto
  have "from_dict dto_init shared (PDict d) = (InputPort_init ?d1, PDict ?d1)"
    using assms(1-4) by (simp add: from_dict_dispatch Let_def dict_get_update)
  moreover have "InputPort_init ?d1 =
      Inr (InputPort PNone PNone (PStr s) (dict_get d ''parent_path'') (PStr ''input_port'') cs)"
    using bind assms(2,7)
    by (simp add: InputPort_init_def kwarg_None dict_get_update dict_get_delete)
  ultimately show ?thesis by simp
qed




lemma from_dict_output_port:
  assumes "dict_get d ''type'' = PStr ''output_port''"
    and "dict_get d ''name'' = PStr s" and "s \<noteq> []" and "PG_NAME_DELIMETER \<notin> set s"
    and "''parent_path'' \<in> fst ` set d"
    and "fst ` set d \<subseteq> {''type'', ''_type'', ''name'', ''parent_path'', ''connections''}"
    and "build_connections (dict_get d ''connections'') = Inr cs"
  shows "fst (from_dict dto_init shared (PDict d)) =
           Inr (OutputPort PNone PNone (PStr s) (dict_get d ''parent_path'') (PStr ''output_port'') cs)"
proof -
  let ?d1 = "AList.update ''_type'' (PStr ''output_port'') (AList.delete ''type'' d)"
  have nm: "''name'' \<in> fst ` set d"
    using assms(2,3) truthy_present [of d "''name''"] by simp
  have keys: "fst ` set ?d1 = insert ''_type'' (fst ` set d - {''type''})"
    by (simp add: keys_update keys_delete)
  have bind: "bind_kwargs [''name'', ''parent_path'', ''_type''] [''connections''] ?d1"
    unfolding bind_kwargs_iff keys using assms(5,6) nm by auto
  have "from_dict dto_init shared (PDict d) = (OutputPort_init ?d1, PDict ?d1)"
    using assms(1-4) by (simp add: from_dict_dispatch Let_def dict_get_update)
  moreover have "OutputPort_init ?d1 =
      Inr (OutputPort PNone PNone (PStr s) (dict_get d ''parent_path'') (PStr ''output_port'') cs)"
    using bind assms(2,7)
    by (simp add: OutputPort_init_def kwarg_None dict_get_update dict_get_delete)
  ultimately show ?thesis by simp
qed

lemma from_dict_processor:
  assumes "dict_get d ''type'' = PStr ''processor''"
    and "dict_get d ''name'' = PStr s" and "s \<noteq> []" and "PG_NAME_DELIMETER \<notin> set s"
    and "''parent_path'' \<in> fst ` set d" and "''config'' \<in> fst ` set d"
    and "fst ` set d \<subseteq> {''type'', ''_type'', ''name'', ''parent_path'', ''config'', ''connections''}"
    and "make_config dto_init (dict_get d ''config'') = (Inr cfg, c')"
    and "build_connections (dict_get d ''connections'') = Inr cs"
  shows "fst (from_dict dto_init shared (PDict d)) =
           Inr (Processor PNone PNone (PStr s) (dict_get d ''parent_path'') (PStr ''processor'') cfg cs)"
proof -
  let ?d1 = "AList.update ''_type'' (PStr ''processor'') (AList.delete ''type'' d)"
  have nm: "''name'' \<in> fst ` set d"
    using assms(2,3) truthy_present [of d "''name''"] by simp
  have keys: "fst ` set ?d1 = insert ''_type'' (fst ` set d - {''type''})"
    by (simp add: keys_update keys_delete)
  have bind: "bind_kwargs [''name'', ''parent_path'', ''_type'', ''config''] [''connections''] ?d1"
    unfolding bind_kwargs_iff keys using assms(5,6,7) nm by auto
  have "from_dict dto_init shared (PDict d) =
          (case Processor_init dto_init ?d1 of (r, d2) \<Rightarrow> (r, PDict d2))"
    using assms(1-4) by (simp add: from_dict_dispatch Let_def dict_get_update)
  moreover have "fst (Processor_init dto_init ?d1) =
      Inr (Processor PNone PNone (PStr s) (dict_get d ''parent_path'') (PStr ''processor'') cfg cs)"
    using bind assms(2,8,9)
    by (simp add: Processor_init_def kwarg_None dict_get_update dict_get_delete)
  ultimately show ?thesis by (simp add: case_prod_beta)
qed

lemma from_dict_process_group:
  assumes "dict_get d ''type'' = PStr ''process_group''"
    and "dict_get d ''name'' = PStr s" and "s \<noteq> []" and "PG_NAME_DELIMETER \<notin> set s"
    and "''parent_path'' \<in> fst ` set d" and "''component_ref'' \<in> fst ` set d"
    and "fst ` set d \<subseteq> {''type'', ''_type'', ''name'', ''parent_path'', ''component_ref'',
           ''controllers'', ''vars'', ''_vars'', ''connections''}"
    and "''vars'' \<in> fst ` set d \<longrightarrow> truthy (dict_get d ''vars'')"
    and "build_connections (dict_get d ''connections'') = Inr cs"
  shows "fst (from_dict dto_init shared (PDict d)) =
           Inr (ProcessGroup PNone PNone (PStr s) (dict_get d ''parent_path'') (PStr ''process_group'')
                  (dict_get d ''component_ref'') (kwarg d ''controllers'' shared)
                  (if truthy (dict_get d ''vars'') then dict_get d ''vars'' else dict_get d ''_vars'')
                  cs [])"
proof -
  let ?d1 = "AList.update ''_type'' (PStr ''process_group'') (AList.delete ''type'' d)"
  let ?d2 = "if truthy (dict_get ?d1 ''vars'')
             then AList.update ''_vars'' (dict_get ?d1 ''vars'') (AList.delete ''vars'' ?d1)
             else ?d1"
  let ?A = "{''_type'', ''name'', ''parent_path'', ''component_ref'',
           ''controllers'', ''_vars'', ''connections''}"
  have nm: "''name'' \<in> fst ` set d"
    using assms(2,3) truthy_present [of d "''name''"] by simp
  have vars1: "dict_get ?d1 ''vars'' = dict_get d ''vars''"
    by (simp add: dict_get_update dict_get_delete)
  have keys: "fst ` set ?d2 =
      (if truthy (dict_get d ''vars'')
       then insert ''_vars'' (insert ''_type'' (fst ` set d - {''type''}) - {''vars''})
       else insert ''_type'' (fst ` set d - {''type''}))"
    by (simp add: vars1 keys_update keys_delete)
  have sub: "fst ` set ?d2 \<subseteq> ?A"
  proof (cases "truthy (dict_get d ''vars'')")
    case True
    then show ?thesis unfolding keys using assms(7) by (simp only: if_True) (rule pg_keys_renamed)
  next
    case False
    with assms(8) have "''vars'' \<notin> fst ` set d" by blast
    with False show ?thesis unfolding keys using assms(7) by (simp only: if_False) (rule pg_keys_plain)
  qed
  have req: "set [''name'', ''parent_path'', ''_type'', ''component_ref''] \<subseteq> fst ` set ?d2"
    unfolding keys using nm assms(5,6) by simp
  have allowed: "?A \<subseteq> set [''name'', ''parent_path'', ''_type'', ''component_ref'']
           \<union> set [''controllers'', ''_vars'', ''connections'']"
    by simp
  have bind: "bind_kwargs [''name'', ''parent_path'', ''_type'', ''component_ref'']
                [''controllers'', ''_vars'', ''connections''] ?d2"
    by (rule bind_kwargsI [OF sub allowed req])
  have "from_dict dto_init shared (PDict d) = (ProcessGroup_init shared ?d2, PDict ?d2)"
    using assms(1-4) by (simp add: from_dict_dispatch Let_def dict_get_update)
  moreover have "ProcessGroup_init shared ?d2 =
      Inr (ProcessGroup PNone PNone (PStr s) (dict_get d ''parent_path'') (PStr ''process_group'')
                  (dict_get d ''component_ref'') (kwarg d ''controllers'' shared)
                  (if truthy (dict_get d ''vars'') then dict_get d ''vars'' else dict_get d ''_vars'')
                  cs [])"
    using bind assms(2,9)
    by (simp add: ProcessGroup_init_def kwarg_None kwarg_update kwarg_delete dict_get_update
        dict_get_delete vars1)
  ultimately show ?thesis by simp
qed

section \<open>Claims about the factory\<close>

text \<open>
  Claim C2, at a record with an unknown tag (\<^verbatim>\<open>'foo'\<close>) whose name holds the
  delimiter: the name check comes first and its \<^verbatim>\<open>raise\<close> evaluates
  \<^verbatim>\<open>Flow.PG_DELIMETER\<close>, so the call ends in \<^verbatim>\<open>AttributeError\<close>, not in the
  \<^verbatim>\<open>FlowLibException\<close> the claim states for an unknown tag. The lemmas
  \<open>from_dict_not_mapping\<close>, \<open>from_dict_no_type\<close>, \<open>from_dict_no_name\<close> and
  \<open>from_dict_unknown_type\<close> are the claim where the code keeps it.
\<close>

theorem from_dict_unknown_type_with_delimiter:
  "from_dict (\<lambda>kw. Inr ()) (PDict []) (PDict [(''type'', PStr ''foo''), (''name'', PStr ''a/b'')])
   = (Inl AttributeError, PDict [(''type'', PStr ''foo''), (''name'', PStr ''a/b'')])"
  by (simp add: from_dict_def dict_get_def PG_NAME_DELIMETER_def)

text \<open>
  Claim C3, at an input port record named \<^verbatim>\<open>'a/b'\<close>: the call ends in
  \<^verbatim>\<open>AttributeError\<close>, raised while the message of the intended
  \<^verbatim>\<open>FlowLibException\<close> is formatted (line 115). By \<open>from_dict_delimiter\<close> this is
  what happens on every record with a tag and a string name that holds the delimiter.
\<close>

theorem from_dict_delimiter_raises_attribute_error:
  "from_dict (\<lambda>kw. Inr ()) (PDict [])
     (PDict [(''type'', PStr ''input_port''), (''name'', PStr ''a/b''),
             (''parent_path'', PStr ''root'')])
   = (Inl AttributeError,
      PDict [(''type'', PStr ''input_port''), (''name'', PStr ''a/b''),
             (''parent_path'', PStr ''root'')])"
  by (simp add: from_dict_def dict_get_def PG_NAME_DELIMETER_def)

text \<open>
  A record that passes the checks and has a key that is no parameter of the selected
  constructor never reaches the constructor's body: the keyword binding raises.
\<close>

lemma conj3D: "A \<and> B \<and> C \<Longrightarrow> (A \<Longrightarrow> B \<Longrightarrow> C \<Longrightarrow> P) \<Longrightarrow> P"
  by blast

lemma obtain_foreign_key: "\<not> K \<subseteq> S \<Longrightarrow> \<exists>k. k \<in> K \<and> k \<notin> S"
  by blast

lemma from_dict_foreign_key:
  assumes "dict_get d ''type'' = PStr t"
    and "dict_get d ''name'' = PStr s" and "s \<noteq> []" and "PG_NAME_DELIMETER \<notin> set s"
    and "(t = ''input_port'' \<or> t = ''output_port'') \<and>
           \<not> fst ` set d \<subseteq> {''type'', ''_type'', ''name'', ''parent_path'', ''connections''}
         \<or> t = ''process_group'' \<and>
           \<not> fst ` set d \<subseteq> {''type'', ''_type'', ''name'', ''parent_path'', ''component_ref'',
             ''controllers'', ''vars'', ''_vars'', ''connections''}
         \<or> t = ''processor'' \<and>
           \<not> fst ` set d \<subseteq> {''type'', ''_type'', ''name'', ''parent_path'', ''config'',
             ''connections''}"
  shows "fst (from_dict dto_init shared (PDict d)) = Inl TypeError"
  using assms(5)
proof (elim disjE conjE)
  let ?d1 = "AList.update ''_type'' (PStr t) (AList.delete ''type'' d)"
  assume t: "t = ''input_port''"
    and k: "\<not> fst ` set d \<subseteq> {''type'', ''_type'', ''name'', ''parent_path'', ''connections''}"
  from obtain_foreign_key [OF k] obtain k where kk: "k \<in> fst ` set d"
    "k \<notin> {''type'', ''_type'', ''name'', ''parent_path'', ''connections''}" by blast
  from kk have "k \<in> fst ` set ?d1" by (simp add: keys_update keys_delete)
  then have "\<not> bind_kwargs [''name'', ''parent_path'', ''_type''] [''connections''] ?d1"
    by (rule bind_kwargs_foreign_key) (use kk(2) in simp_all)
  then have "InputPort_init ?d1 = (Inl TypeError :: py_error + 'a FlowElement)"
    by (simp add: InputPort_init_def)
  then show ?thesis
    using assms(1-4) t by (simp add: from_dict_dispatch Let_def dict_get_update)
next
  let ?d1 = "AList.update ''_type'' (PStr t) (AList.delete ''type'' d)"
  assume t: "t = ''output_port''"
    and k: "\<not> fst ` set d \<subseteq> {''type'', ''_type'', ''name'', ''parent_path'', ''connections''}"
  from obtain_foreign_key [OF k] obtain k where kk: "k \<in> fst ` set d"
    "k \<notin> {''type'', ''_type'', ''name'', ''parent_path'', ''connections''}" by blast
  from kk have "k \<in> fst ` set ?d1" by (simp add: keys_update keys_delete)
  then have "\<not> bind_kwargs [''name'', ''parent_path'', ''_type''] [''connections''] ?d1"
    by (rule bind_kwargs_foreign_key) (use kk(2) in simp_all)
  then have "OutputPort_init ?d1 = (Inl TypeError :: py_error + 'a FlowElement)"
    by (simp add: OutputPort_init_def)
  then show ?thesis
    using assms(1-4) t by (simp add: from_dict_dispatch Let_def dict_get_update)
next
  let ?d1 = "AList.update ''_type'' (PStr t) (AList.delete ''type'' d)"
  let ?d2 = "if truthy (dict_get d ''vars'')
             then AList.update ''_vars'' (dict_get d ''vars'') (AList.delete ''vars'' ?d1)
             else ?d1"
  assume t: "t = ''process_group''"
    and k: "\<not> fst ` set d \<subseteq> {''type'', ''_type'', ''name'', ''parent_path'', ''component_ref'',
             ''controllers'', ''vars'', ''_vars'', ''connections''}"
  from obtain_foreign_key [OF k] obtain k where kk: "k \<in> fst ` set d"
    "k \<notin> {''type'', ''_type'', ''name'', ''parent_path'', ''component_ref'',
             ''controllers'', ''vars'', ''_vars'', ''connections''}" by blast
  from kk have "k \<in> fst ` set ?d2" by (simp add: keys_update keys_delete)
  then have "\<not> bind_kwargs [''name'', ''parent_path'', ''_type'', ''component_ref'']
                  [''controllers'', ''_vars'', ''connections''] ?d2"
    by (rule bind_kwargs_foreign_key) (use kk(2) in simp_all)
  then have "ProcessGroup_init shared ?d2 = (Inl TypeError :: py_error + 'a FlowElement)"
    by (simp add: ProcessGroup_init_def)
  then show ?thesis
    using assms(1-4) unfolding t
    by (cases "truthy (dict_get d ''vars'')")
      (simp_all add: from_dict_dispatch Let_def dict_get_update dict_get_delete)
next
  let ?d1 = "AList.update ''_type'' (PStr t) (AList.delete ''type'' d)"
  assume t: "t = ''processor''"
    and k: "\<not> fst ` set d \<subseteq> {''type'', ''_type'', ''name'', ''parent_path'', ''config'',
             ''connections''}"
  from obtain_foreign_key [OF k] obtain k where kk: "k \<in> fst ` set d"
    "k \<notin> {''type'', ''_type'', ''name'', ''parent_path'', ''config'', ''connections''}" by blast
  from kk have "k \<in> fst ` set ?d1" by (simp add: keys_update keys_delete)
  then have "\<not> bind_kwargs [''name'', ''parent_path'', ''_type'', ''config''] [''connections''] ?d1"
    by (rule bind_kwargs_foreign_key) (use kk(2) in simp_all)
  then have "fst (Processor_init dto_init ?d1) = Inl TypeError"
    by (simp add: Processor_init_def)
  then show ?thesis
    using assms(1-4) t
    by (simp add: from_dict_dispatch Let_def dict_get_update case_prod_beta)
qed

lemma from_dict_well_formed:
  assumes "dict_get d ''type'' = PStr t"
    and "dict_get d ''name'' = PStr s" and "s \<noteq> []" and "PG_NAME_DELIMETER \<notin> set s"
    and "''parent_path'' \<in> fst ` set d"
    and "build_connections (dict_get d ''connections'') = Inr cs"
    and "(t = ''input_port'' \<or> t = ''output_port'') \<and>
           fst ` set d \<subseteq> {''type'', ''_type'', ''name'', ''parent_path'', ''connections''}
         \<or> t = ''process_group'' \<and> ''component_ref'' \<in> fst ` set d \<and>
           fst ` set d \<subseteq> {''type'', ''_type'', ''name'', ''parent_path'', ''component_ref'',
             ''controllers'', ''vars'', ''_vars'', ''connections''} \<and>
           (''vars'' \<in> fst ` set d \<longrightarrow> truthy (dict_get d ''vars''))
         \<or> t = ''processor'' \<and> ''config'' \<in> fst ` set d \<and>
           fst ` set d \<subseteq> {''type'', ''_type'', ''name'', ''parent_path'', ''config'', ''connections''} \<and>
           (\<exists>cfg c'. make_config dto_init (dict_get d ''config'') = (Inr cfg, c'))"
  shows "\<exists>e. fst (from_dict dto_init shared (PDict d)) = Inr e \<and> variant_tag e = t \<and>
             priv_type e = dict_get d ''type'' \<and> name e = dict_get d ''name'' \<and>
             parent_path e = dict_get d ''parent_path''"
  using assms(7)
proof (elim disjE conjE exE)
  assume t: "t = ''input_port''"
    and k: "fst ` set d \<subseteq> {''type'', ''_type'', ''name'', ''parent_path'', ''connections''}"
  have "fst (from_dict dto_init shared (PDict d)) =
      Inr (InputPort PNone PNone (PStr s) (dict_get d ''parent_path'') (PStr ''input_port'') cs)"
    using assms(1) [unfolded t] assms(2-5) k assms(6) by (rule from_dict_input_port)
  then show ?thesis using assms(1,2) t by simp
next
  assume t: "t = ''output_port''"
    and k: "fst ` set d \<subseteq> {''type'', ''_type'', ''name'', ''parent_path'', ''connections''}"
  have "fst (from_dict dto_init shared (PDict d)) =
      Inr (OutputPort PNone PNone (PStr s) (dict_get d ''parent_path'') (PStr ''output_port'') cs)"
    using assms(1) [unfolded t] assms(2-5) k assms(6) by (rule from_dict_output_port)
  then show ?thesis using assms(1,2) t by simp
next
  assume t: "t = ''process_group''" and c: "''component_ref'' \<in> fst ` set d"
    and k: "fst ` set d \<subseteq> {''type'', ''_type'', ''name'', ''parent_path'', ''component_ref'',
             ''controllers'', ''vars'', ''_vars'', ''connections''}"
    and v: "''vars'' \<in> fst ` set d \<longrightarrow> truthy (dict_get d ''vars'')"
  have "fst (from_dict dto_init shared (PDict d)) =
      Inr (ProcessGroup PNone PNone (PStr s) (dict_get d ''parent_path'') (PStr ''process_group'')
             (dict_get d ''component_ref'') (kwarg d ''controllers'' shared)
             (if truthy (dict_get d ''vars'') then dict_get d ''vars'' else dict_get d ''_vars'')
             cs [])"
    using assms(1) [unfolded t] assms(2-5) c k v assms(6) by (rule from_dict_process_group)
  then show ?thesis using assms(1,2) t by simp
next
  fix cfg c'
  assume t: "t = ''processor''" and c: "''config'' \<in> fst ` set d"
    and k: "fst ` set d \<subseteq> {''type'', ''_type'', ''name'', ''parent_path'', ''config'', ''connections''}"
    and m: "make_config dto_init (dict_get d ''config'') = (Inr cfg, c')"
  have "fst (from_dict dto_init shared (PDict d)) =
      Inr (Processor PNone PNone (PStr s) (dict_get d ''parent_path'') (PStr ''processor'') cfg cs)"
    using assms(1) [unfolded t] assms(2-5) c k m assms(6) by (rule from_dict_processor)
  then show ?thesis using assms(1,2) t by simp
qed

text \<open>
  Claim C4, as the code has it. Take a record with a recognized tag \<open>t\<close> and a non-empty
  string name without the delimiter. If the record has a \<^verbatim>\<open>parent_path\<close>, its
  connections convert, and it carries no key beyond \<^verbatim>\<open>type\<close> and the parameters of
  the constructor that \<open>t\<close> selects (with \<^verbatim>\<open>component_ref\<close> for a process group,
  which may also have a \<^verbatim>\<open>vars\<close> entry if that is non-empty; with a usable
  \<^verbatim>\<open>config\<close> for a processor), then \<^verbatim>\<open>from_dict\<close> returns one element, of the
  variant \<open>t\<close> names, whose \<^verbatim>\<open>_type\<close>, \<^verbatim>\<open>name\<close> and \<^verbatim>\<open>parent_path\<close> are
  the record's values. If the record has any key beyond those (\<^verbatim>\<open>type\<close>, the
  parameters of that constructor and, for a process group, \<^verbatim>\<open>vars\<close>), the call raises
  \<^verbatim>\<open>TypeError\<close>.
\<close>

theorem from_dict_valid_record:
  assumes "dict_get d ''type'' = PStr t"
    and "dict_get d ''name'' = PStr s" and "s \<noteq> []" and "PG_NAME_DELIMETER \<notin> set s"
  shows
   "(''parent_path'' \<in> fst ` set d \<and>
     build_connections (dict_get d ''connections'') = Inr cs \<and>
     ((t = ''input_port'' \<or> t = ''output_port'') \<and>
           fst ` set d \<subseteq> {''type'', ''_type'', ''name'', ''parent_path'', ''connections''}
         \<or> t = ''process_group'' \<and> ''component_ref'' \<in> fst ` set d \<and>
           fst ` set d \<subseteq> {''type'', ''_type'', ''name'', ''parent_path'', ''component_ref'',
             ''controllers'', ''vars'', ''_vars'', ''connections''} \<and>
           (''vars'' \<in> fst ` set d \<longrightarrow> truthy (dict_get d ''vars''))
         \<or> t = ''processor'' \<and> ''config'' \<in> fst ` set d \<and>
           fst ` set d \<subseteq> {''type'', ''_type'', ''name'', ''parent_path'', ''config'', ''connections''} \<and>
           (\<exists>cfg c'. make_config dto_init (dict_get d ''config'') = (Inr cfg, c')))
     \<longrightarrow>
     (\<exists>e. fst (from_dict dto_init shared (PDict d)) = Inr e \<and> variant_tag e = t \<and>
          priv_type e = dict_get d ''type'' \<and> name e = dict_get d ''name'' \<and>
          parent_path e = dict_get d ''parent_path'')) \<and>
    ((t = ''input_port'' \<or> t = ''output_port'') \<and>
           \<not> fst ` set d \<subseteq> {''type'', ''_type'', ''name'', ''parent_path'', ''connections''}
         \<or> t = ''process_group'' \<and>
           \<not> fst ` set d \<subseteq> {''type'', ''_type'', ''name'', ''parent_path'', ''component_ref'',
             ''controllers'', ''vars'', ''_vars'', ''connections''}
         \<or> t = ''processor'' \<and>
           \<not> fst ` set d \<subseteq> {''type'', ''_type'', ''name'', ''parent_path'', ''config'',
             ''connections''}
     \<longrightarrow> fst (from_dict dto_init shared (PDict d)) = Inl TypeError)"
proof (intro conjI impI)
  assume "''parent_path'' \<in> fst ` set d \<and>
     build_connections (dict_get d ''connections'') = Inr cs \<and>
     ((t = ''input_port'' \<or> t = ''output_port'') \<and>
           fst ` set d \<subseteq> {''type'', ''_type'', ''name'', ''parent_path'', ''connections''}
         \<or> t = ''process_group'' \<and> ''component_ref'' \<in> fst ` set d \<and>
           fst ` set d \<subseteq> {''type'', ''_type'', ''name'', ''parent_path'', ''component_ref'',
             ''controllers'', ''vars'', ''_vars'', ''connections''} \<and>
           (''vars'' \<in> fst ` set d \<longrightarrow> truthy (dict_get d ''vars''))
         \<or> t = ''processor'' \<and> ''config'' \<in> fst ` set d \<and>
           fst ` set d \<subseteq> {''type'', ''_type'', ''name'', ''parent_path'', ''config'', ''connections''} \<and>
           (\<exists>cfg c'. make_config dto_init (dict_get d ''config'') = (Inr cfg, c')))"
  then show "\<exists>e. fst (from_dict dto_init shared (PDict d)) = Inr e \<and> variant_tag e = t \<and>
          priv_type e = dict_get d ''type'' \<and> name e = dict_get d ''name'' \<and>
          parent_path e = dict_get d ''parent_path''"
    by (rule conj3D) (rule from_dict_well_formed [OF assms], assumption+)
next
  assume "(t = ''input_port'' \<or> t = ''output_port'') \<and>
           \<not> fst ` set d \<subseteq> {''type'', ''_type'', ''name'', ''parent_path'', ''connections''}
         \<or> t = ''process_group'' \<and>
           \<not> fst ` set d \<subseteq> {''type'', ''_type'', ''name'', ''parent_path'', ''component_ref'',
             ''controllers'', ''vars'', ''_vars'', ''connections''}
         \<or> t = ''processor'' \<and>
           \<not> fst ` set d \<subseteq> {''type'', ''_type'', ''name'', ''parent_path'', ''config'',
             ''connections''}"
  with assms show "fst (from_dict dto_init shared (PDict d)) = Inl TypeError"
    by (rule from_dict_foreign_key)
qed

text \<open>
  The theorem at a process group record with variable overrides, and at an input port
  record with a key \<^verbatim>\<open>comments\<close>.
\<close>

theorem from_dict_valid_record_witness:
  "(\<exists>e :: unit FlowElement.
     fst (from_dict (\<lambda>kw. Inr ()) (PDict [])
            (PDict [(''type'', PStr ''process_group''), (''name'', PStr ''A''),
                    (''parent_path'', PStr ''root''), (''component_ref'', PStr ''s3.yaml''),
                    (''vars'', PDict [(''bucket'', PStr ''b'')])])) = Inr e \<and>
     variant_tag e = ''process_group'' \<and> priv_type e = PStr ''process_group'' \<and>
     name e = PStr ''A'' \<and> parent_path e = PStr ''root'') \<and>
   fst (from_dict (\<lambda>kw. Inr ()) (PDict [])
          (PDict [(''type'', PStr ''output_port''), (''name'', PStr ''out''),
                  (''parent_path'', PStr ''root''), (''comments'', PStr ''exit'')]))
     = (Inl TypeError :: py_error + unit FlowElement)"
  using from_dict_valid_record
    [where d = "[(''type'', PStr ''process_group''), (''name'', PStr ''A''),
          (''parent_path'', PStr ''root''), (''component_ref'', PStr ''s3.yaml''),
          (''vars'', PDict [(''bucket'', PStr ''b'')])]"
       and t = "''process_group''" and s = "''A''" and cs = None
       and dto_init = "\<lambda>kw. Inr ()" and shared = "PDict []"]
    from_dict_valid_record
    [where d = "[(''type'', PStr ''output_port''), (''name'', PStr ''out''),
                  (''parent_path'', PStr ''root''), (''comments'', PStr ''exit'')]"
       and t = "''output_port''" and s = "''out''" and cs = None
       and dto_init = "\<lambda>kw. Inr ()" and shared = "PDict []"]
  by (simp add: dict_get_def build_connections_def PG_NAME_DELIMETER_def)

text \<open>
  Claim C4 as the specification states it fails: a record with a recognized tag, a good
  name and every required field, and one more key, is rejected by the keyword binding of
  the constructor with \<^verbatim>\<open>TypeError\<close>.
\<close>

theorem from_dict_rejects_extra_key:
  "fst (from_dict (\<lambda>kw. Inr ()) (PDict [])
          (PDict [(''type'', PStr ''input_port''), (''name'', PStr ''in''),
                  (''parent_path'', PStr ''root''), (''comments'', PStr ''entry point'')]))
     = Inl TypeError"
  by (simp add: from_dict_def dict_get_def PG_NAME_DELIMETER_def InputPort_init_def
      bind_kwargs_def)

section \<open>Process groups: no recursion\<close>

lemma ProcessGroup_init_InrD:
  "ProcessGroup_init shared kw = Inr e \<Longrightarrow>
   variant_tag e = ''process_group'' \<and> elements e = [] \<and> vars e = kwarg kw ''_vars'' PNone"
  by (auto simp add: ProcessGroup_init_def split: if_splits sum.splits)

lemma from_dict_process_group_step:
  assumes "dict_get d ''type'' = PStr ''process_group''"
    and "dict_get d ''name'' = PStr s" and "s \<noteq> []" and "PG_NAME_DELIMETER \<notin> set s"
  shows "fst (from_dict dto_init shared (PDict d)) =
     ProcessGroup_init shared
       (if truthy (dict_get d ''vars'')
        then AList.update ''_vars'' (dict_get d ''vars'')
               (AList.delete ''vars''
                  (AList.update ''_type'' (PStr ''process_group'') (AList.delete ''type'' d)))
        else AList.update ''_type'' (PStr ''process_group'') (AList.delete ''type'' d))"
  using assms by (simp add: from_dict_dispatch Let_def dict_get_update dict_get_delete)

text \<open>
  Claim C5, as the code has it. \<^verbatim>\<open>from_dict\<close> calls no factory on nested data. For a
  record tagged \<^verbatim>\<open>process_group\<close> that passes the name checks (its name is a
  non-empty string without the delimiter): if the record has
  an \<^verbatim>\<open>elements\<close> key the constructor call raises \<^verbatim>\<open>TypeError\<close>; every element
  the call returns is a process group whose \<^verbatim>\<open>elements\<close> dict is empty and whose
  \<^verbatim>\<open>vars\<close> attribute is the record's \<^verbatim>\<open>vars\<close> data when that is truthy; and a
  record with the constructor's parameters and nothing else is built that way, its
  \<^verbatim>\<open>controllers\<close> being the record's or else the shared default dict.
\<close>

theorem process_group_built_without_recursion:
  assumes "dict_get d ''type'' = PStr ''process_group''"
    and "dict_get d ''name'' = PStr s" and "s \<noteq> []" and "PG_NAME_DELIMETER \<notin> set s"
  shows "(''elements'' \<in> fst ` set d \<longrightarrow> fst (from_dict dto_init shared (PDict d)) = Inl TypeError) \<and>
    (\<forall>e. fst (from_dict dto_init shared (PDict d)) = Inr e \<longrightarrow>
       variant_tag e = ''process_group'' \<and> elements e = [] \<and>
       vars e = (if truthy (dict_get d ''vars'') then dict_get d ''vars''
                 else dict_get d ''_vars'')) \<and>
    (''parent_path'' \<in> fst ` set d \<and> ''component_ref'' \<in> fst ` set d \<and>
     fst ` set d \<subseteq> {''type'', ''_type'', ''name'', ''parent_path'', ''component_ref'',
        ''controllers'', ''vars'', ''_vars'', ''connections''} \<and>
     (''vars'' \<in> fst ` set d \<longrightarrow> truthy (dict_get d ''vars'')) \<and>
     build_connections (dict_get d ''connections'') = Inr cs \<longrightarrow>
     fst (from_dict dto_init shared (PDict d)) =
       Inr (ProcessGroup PNone PNone (PStr s) (dict_get d ''parent_path'') (PStr ''process_group'')
              (dict_get d ''component_ref'') (kwarg d ''controllers'' shared)
              (if truthy (dict_get d ''vars'') then dict_get d ''vars'' else dict_get d ''_vars'')
              cs []))"
proof (intro conjI impI allI)
  let ?d1 = "AList.update ''_type'' (PStr ''process_group'') (AList.delete ''type'' d)"
  let ?d2 = "if truthy (dict_get d ''vars'')
             then AList.update ''_vars'' (dict_get d ''vars'') (AList.delete ''vars'' ?d1)
             else ?d1"
  note step = from_dict_process_group_step [OF assms, of dto_init shared]
  {
    assume el: "''elements'' \<in> fst ` set d"
    have "''elements'' \<in> fst ` set ?d2"
      using el by (simp add: keys_update keys_delete)
    then have "\<not> bind_kwargs [''name'', ''parent_path'', ''_type'', ''component_ref'']
                  [''controllers'', ''_vars'', ''connections''] ?d2"
      by (rule bind_kwargs_foreign_key) simp_all
    then have "ProcessGroup_init shared ?d2 = (Inl TypeError :: py_error + 'a FlowElement)"
      by (simp add: ProcessGroup_init_def)
    then show "fst (from_dict dto_init shared (PDict d)) = Inl TypeError"
      using step by simp
  }
  {
    fix e assume r: "fst (from_dict dto_init shared (PDict d)) = Inr e"
    then have "ProcessGroup_init shared ?d2 = Inr e" using step by simp
    from ProcessGroup_init_InrD [OF this]
    have *: "variant_tag e = ''process_group''" "elements e = []"
      "vars e = kwarg ?d2 ''_vars'' PNone" by simp_all
    show "variant_tag e = ''process_group''" by (rule *(1))
    show "elements e = []" by (rule *(2))
    show "vars e = (if truthy (dict_get d ''vars'') then dict_get d ''vars''
                 else dict_get d ''_vars'')"
      unfolding *(3) by (simp add: kwarg_None dict_get_update dict_get_delete)
  }
  {
    assume wf: "''parent_path'' \<in> fst ` set d \<and> ''component_ref'' \<in> fst ` set d \<and>
     fst ` set d \<subseteq> {''type'', ''_type'', ''name'', ''parent_path'', ''component_ref'',
        ''controllers'', ''vars'', ''_vars'', ''connections''} \<and>
     (''vars'' \<in> fst ` set d \<longrightarrow> truthy (dict_get d ''vars'')) \<and>
     build_connections (dict_get d ''connections'') = Inr cs"
    show "fst (from_dict dto_init shared (PDict d)) =
       Inr (ProcessGroup PNone PNone (PStr s) (dict_get d ''parent_path'') (PStr ''process_group'')
              (dict_get d ''component_ref'') (kwarg d ''controllers'' shared)
              (if truthy (dict_get d ''vars'') then dict_get d ''vars'' else dict_get d ''_vars'')
              cs [])"
      using assms wf by (intro from_dict_process_group) simp_all
  }
qed


text \<open>The theorem at a process group record with one variable override.\<close>

theorem process_group_built_without_recursion_witness:
  "fst (from_dict (\<lambda>kw. Inr ()) (PDict [])
     (PDict [(''type'', PStr ''process_group''), (''name'', PStr ''ingest''),
             (''parent_path'', PStr ''root''), (''component_ref'', PStr ''ingest.yaml''),
             (''vars'', PDict [(''topic'', PStr ''events'')])]))
   = Inr (ProcessGroup PNone PNone (PStr ''ingest'') (PStr ''root'') (PStr ''process_group'')
            (PStr ''ingest.yaml'') (PDict []) (PDict [(''topic'', PStr ''events'')]) None [])"
  using process_group_built_without_recursion
    [where d = "[(''type'', PStr ''process_group''), (''name'', PStr ''ingest''),
          (''parent_path'', PStr ''root''), (''component_ref'', PStr ''ingest.yaml''),
          (''vars'', PDict [(''topic'', PStr ''events'')])]"
       and s = "''ingest''" and dto_init = "\<lambda>kw. Inr ()" and cs = None
       and shared = "PDict []"]
  by (simp add: dict_get_def kwarg_def build_connections_def PG_NAME_DELIMETER_def)

text \<open>
  Claim C5 as the specification states it fails: a process group record with a nested
  element list yields no subtree, the call raises \<^verbatim>\<open>TypeError\<close>.
\<close>

theorem process_group_nested_elements_rejected:
  "fst (from_dict (\<lambda>kw. Inr ()) (PDict [])
     (PDict [(''type'', PStr ''process_group''), (''name'', PStr ''A''),
             (''parent_path'', PStr ''root''), (''component_ref'', PStr ''a.yaml''),
             (''elements'',
              PList [PDict [(''type'', PStr ''input_port''), (''name'', PStr ''B''),
                            (''parent_path'', PStr ''root/A'')]])]))
   = Inl TypeError"
  by (simp add: from_dict_def dict_get_def PG_NAME_DELIMETER_def ProcessGroup_init_def
      bind_kwargs_def)

section \<open>The caller's record after the call\<close>









section \<open>The connections attribute\<close>

text \<open>The comprehension converts item by item, in order, or raises.\<close>

lemma Connection_list_Inr_iff:
  "Connection_list cs = Inr xs \<longleftrightarrow>
     length xs = length cs \<and> (\<forall>i < length cs. Connection_init (cs ! i) = Inr (xs ! i))"
proof (induction cs arbitrary: xs)
  case Nil
  then show ?case by auto
next
  case (Cons c cs)
  show ?case
  proof (cases xs)
    case Nil
    then show ?thesis by (auto split: sum.splits)
  next
    case (Cons y ys)
    have "Connection_list (c # cs) = Inr (y # ys) \<longleftrightarrow>
            Connection_init c = Inr y \<and> Connection_list cs = Inr ys"
      by (auto split: sum.splits)
    also have "\<dots> \<longleftrightarrow> Connection_init c = Inr y \<and> length ys = length cs \<and>
                 (\<forall>i < length cs. Connection_init (cs ! i) = Inr (ys ! i))"
      by (simp add: Cons.IH)
    also have "\<dots> \<longleftrightarrow> length (y # ys) = length (c # cs) \<and>
                 (\<forall>i < length (c # cs). Connection_init ((c # cs) ! i) = Inr ((y # ys) ! i))"
      by (auto simp add: nth_Cons split: nat.splits)
    finally show ?thesis using Cons by simp
  qed
qed

lemma build_connections_Inr:
  "build_connections v = Inr r \<Longrightarrow>
     (\<not> truthy v \<longrightarrow> r = None) \<and>
     (truthy v \<longrightarrow> (\<exists>cs xs. v = PList cs \<and> r = Some xs \<and> Connection_list cs = Inr xs))"
  by (cases v) (auto simp add: build_connections_def split: if_splits sum.splits)

lemma ProcessGroup_init_connections:
  "ProcessGroup_init shared kw = Inr e \<Longrightarrow>
   build_connections (kwarg kw ''connections'' PNone) = Inr (connections e)"
  by (auto simp add: ProcessGroup_init_def split: if_splits sum.splits)

lemma InputPort_init_connections:
  "InputPort_init kw = Inr e \<Longrightarrow>
   build_connections (kwarg kw ''connections'' PNone) = Inr (connections e)"
  by (auto simp add: InputPort_init_def split: if_splits sum.splits)

lemma OutputPort_init_connections:
  "OutputPort_init kw = Inr e \<Longrightarrow>
   build_connections (kwarg kw ''connections'' PNone) = Inr (connections e)"
  by (auto simp add: OutputPort_init_def split: if_splits sum.splits)

lemma Processor_init_connections:
  "fst (Processor_init dto_init kw) = Inr e \<Longrightarrow>
   build_connections (kwarg kw ''connections'' PNone) = Inr (connections e)"
  by (auto simp add: Processor_init_def split: if_splits sum.splits prod.splits)

lemma build_connections_list:
  "cs \<noteq> [] \<Longrightarrow> length xs = length cs \<Longrightarrow>
   \<forall>i < length cs. Connection_init (cs ! i) = Inr (xs ! i) \<Longrightarrow>
   build_connections (PList cs) = Inr (Some xs)"
  using Connection_list_Inr_iff [of cs xs] by (simp add: build_connections_def)

lemma build_connections_of_argument:
  assumes "r = None \<and> \<not> truthy v \<or>
     (\<exists>cs xs. r = Some xs \<and> v = PList cs \<and> cs \<noteq> [] \<and> length xs = length cs \<and>
        (\<forall>i < length cs. Connection_init (cs ! i) = Inr (xs ! i)))"
  shows "build_connections v = Inr r"
  using assms
proof (elim disjE conjE exE)
  assume "r = None" "\<not> truthy v"
  then show ?thesis by (simp add: build_connections_def)
next
  fix cs xs
  assume "r = Some xs" "v = PList cs" "cs \<noteq> []" "length xs = length cs"
    "\<forall>i < length cs. Connection_init (cs ! i) = Inr (xs ! i)"
  then show ?thesis by (simp add: build_connections_list)
qed

text \<open>
  Claim C10. For each of the four constructors: on the element it returns, when the
  \<^verbatim>\<open>connections\<close> argument is omitted (the default \<^verbatim>\<open>None\<close>) or empty the
  attribute is \<^verbatim>\<open>None\<close>, and otherwise the argument is a list and the attribute is
  the list of its items' \<^verbatim>\<open>Connection\<close> objects, item \<open>i\<close> made from record \<open>i\<close>.
  And the constructor does return such an element: whenever the keyword arguments bind to its
  signature (and, for a processor, the \<^verbatim>\<open>config\<close> is usable), an omitted or empty
  argument gives an element whose attribute is \<^verbatim>\<open>None\<close>, and a non-empty list of
  records that each convert gives an element whose attribute is the list of the
  conversions, in order.
\<close>

theorem constructors_connections_field:
  "((ProcessGroup_init shared kw = Inr e \<or> fst (Processor_init dto_init kw) = Inr e \<or>
     InputPort_init kw = Inr e \<or> OutputPort_init kw = Inr e) \<longrightarrow>
      (\<not> truthy (kwarg kw ''connections'' PNone) \<longrightarrow> connections e = None) \<and>
      (truthy (kwarg kw ''connections'' PNone) \<longrightarrow>
         (\<exists>cs xs. kwarg kw ''connections'' PNone = PList cs \<and> connections e = Some xs \<and>
                  length xs = length cs \<and>
                  (\<forall>i < length cs. Connection_init (cs ! i) = Inr (xs ! i))))) \<and>
   (r = None \<and> \<not> truthy (kwarg kw ''connections'' PNone) \<or>
    (\<exists>cs xs. r = Some xs \<and> kwarg kw ''connections'' PNone = PList cs \<and> cs \<noteq> [] \<and>
       length xs = length cs \<and> (\<forall>i < length cs. Connection_init (cs ! i) = Inr (xs ! i)))
    \<longrightarrow>
      (bind_kwargs [''name'', ''parent_path'', ''_type'', ''component_ref'']
         [''controllers'', ''_vars'', ''connections''] kw \<longrightarrow>
         (\<exists>e'. ProcessGroup_init shared kw = Inr e' \<and> variant_tag e' = ''process_group'' \<and>
               connections e' = r)) \<and>
      (bind_kwargs [''name'', ''parent_path'', ''_type'', ''config''] [''connections''] kw \<and>
       (\<exists>cfg c'. make_config dto_init (kwarg kw ''config'' PNone) = (Inr cfg, c')) \<longrightarrow>
         (\<exists>e'. fst (Processor_init dto_init kw) = Inr e' \<and> variant_tag e' = ''processor'' \<and>
               connections e' = r)) \<and>
      (bind_kwargs [''name'', ''parent_path'', ''_type''] [''connections''] kw \<longrightarrow>
         (\<exists>e'. InputPort_init kw = Inr e' \<and> variant_tag e' = ''input_port'' \<and>
               connections e' = r) \<and>
         (\<exists>e'. OutputPort_init kw = Inr e' \<and> variant_tag e' = ''output_port'' \<and>
               connections e' = r)))"
proof (intro conjI impI)
  assume ret: "ProcessGroup_init shared kw = Inr e \<or> fst (Processor_init dto_init kw) = Inr e \<or>
     InputPort_init kw = Inr e \<or> OutputPort_init kw = Inr e"
  have bc: "build_connections (kwarg kw ''connections'' PNone) = Inr (connections e)"
    using ret ProcessGroup_init_connections Processor_init_connections
      InputPort_init_connections OutputPort_init_connections by blast
  {
    assume "\<not> truthy (kwarg kw ''connections'' PNone)"
    with build_connections_Inr [OF bc] show "connections e = None" by simp
  }
  {
    assume "truthy (kwarg kw ''connections'' PNone)"
    with build_connections_Inr [OF bc]
    show "\<exists>cs xs. kwarg kw ''connections'' PNone = PList cs \<and> connections e = Some xs \<and>
                  length xs = length cs \<and>
                  (\<forall>i < length cs. Connection_init (cs ! i) = Inr (xs ! i))"
      by (auto simp add: Connection_list_Inr_iff)
  }
next
  assume arg: "r = None \<and> \<not> truthy (kwarg kw ''connections'' PNone) \<or>
    (\<exists>cs xs. r = Some xs \<and> kwarg kw ''connections'' PNone = PList cs \<and> cs \<noteq> [] \<and>
       length xs = length cs \<and> (\<forall>i < length cs. Connection_init (cs ! i) = Inr (xs ! i)))"
  have bc: "build_connections (kwarg kw ''connections'' PNone) = Inr r"
    using arg by (rule build_connections_of_argument)
  {
    assume "bind_kwargs [''name'', ''parent_path'', ''_type'', ''component_ref'']
         [''controllers'', ''_vars'', ''connections''] kw"
    then show "\<exists>e'. ProcessGroup_init shared kw = Inr e' \<and> variant_tag e' = ''process_group'' \<and>
               connections e' = r"
      using bc by (simp add: ProcessGroup_init_def)
  }
  {
    assume "bind_kwargs [''name'', ''parent_path'', ''_type'', ''config''] [''connections''] kw \<and>
       (\<exists>cfg c'. make_config dto_init (kwarg kw ''config'' PNone) = (Inr cfg, c'))"
    then show "\<exists>e'. fst (Processor_init dto_init kw) = Inr e' \<and> variant_tag e' = ''processor'' \<and>
               connections e' = r"
      using bc by (auto simp add: Processor_init_def)
  }
  {
    assume b: "bind_kwargs [''name'', ''parent_path'', ''_type''] [''connections''] kw"
    then show "\<exists>e'. InputPort_init kw = Inr e' \<and> variant_tag e' = ''input_port'' \<and>
               connections e' = r"
      using bc by (simp add: InputPort_init_def)
    from b show "\<exists>e'. OutputPort_init kw = Inr e' \<and> variant_tag e' = ''output_port'' \<and>
               connections e' = r"
      using bc by (simp add: OutputPort_init_def)
  }
qed

text \<open>
  The theorem at a process group with two connection records, a processor without a
  \<^verbatim>\<open>connections\<close> argument, an input port with one record and an output port whose
  connections are the empty list.
\<close>

theorem constructors_connections_field_witness:
  "ProcessGroup_init (PDict [])
     [(''name'', PStr ''A''), (''parent_path'', PStr ''root''), (''_type'', PStr ''process_group''),
      (''component_ref'', PStr ''a.yaml''),
      (''connections'',
       PList [PDict [(''name'', PStr ''parse'')],
              PDict [(''name'', PStr ''store''), (''relationships'', PList [PStr ''success''])]])]
   = Inr (ProcessGroup PNone PNone (PStr ''A'') (PStr ''root'') (PStr ''process_group'')
            (PStr ''a.yaml'') (PDict []) PNone
            (Some [\<lparr>conn_name = PStr ''parse'', from_port = PNone, to_port = PNone,
                     relationships = PNone\<rparr>,
                   \<lparr>conn_name = PStr ''store'', from_port = PNone, to_port = PNone,
                     relationships = PList [PStr ''success'']\<rparr>]) []
          :: unit FlowElement) \<and>
   fst (Processor_init (\<lambda>kw. Inr ())
     [(''name'', PStr ''P''), (''parent_path'', PStr ''root''), (''_type'', PStr ''processor''),
      (''config'', PDict [(''package_id'', PStr ''pkg'')])])
   = Inr (Processor PNone PNone (PStr ''P'') (PStr ''root'') (PStr ''processor'')
            \<lparr>package_id = PStr ''pkg'', dto = ()\<rparr> None) \<and>
   InputPort_init
     [(''name'', PStr ''in''), (''parent_path'', PStr ''root''), (''_type'', PStr ''input_port''),
      (''connections'', PList [PDict [(''name'', PStr ''parse''), (''to_port'', PStr ''p'')]])]
   = Inr (InputPort PNone PNone (PStr ''in'') (PStr ''root'') (PStr ''input_port'')
            (Some [\<lparr>conn_name = PStr ''parse'', from_port = PNone, to_port = PStr ''p'',
                     relationships = PNone\<rparr>])
          :: unit FlowElement) \<and>
   OutputPort_init
     [(''name'', PStr ''out''), (''parent_path'', PStr ''root''), (''_type'', PStr ''output_port''),
      (''connections'', PList [])]
   = Inr (OutputPort PNone PNone (PStr ''out'') (PStr ''root'') (PStr ''output_port'') None
          :: unit FlowElement)"
  using constructors_connections_field
    [where kw = "[(''name'', PStr ''A''), (''parent_path'', PStr ''root''),
        (''_type'', PStr ''process_group''), (''component_ref'', PStr ''a.yaml''),
        (''connections'',
         PList [PDict [(''name'', PStr ''parse'')],
                PDict [(''name'', PStr ''store''),
                       (''relationships'', PList [PStr ''success''])]])]"
      and shared = "PDict []" and dto_init = "\<lambda>kw. Inr ()"
      and r = "Some [\<lparr>conn_name = PStr ''parse'', from_port = PNone, to_port = PNone,
                     relationships = PNone\<rparr>,
                   \<lparr>conn_name = PStr ''store'', from_port = PNone, to_port = PNone,
                     relationships = PList [PStr ''success'']\<rparr>]"
      and e = "InputPort PNone PNone PNone PNone PNone None :: unit FlowElement"]
    constructors_connections_field
    [where kw = "[(''name'', PStr ''P''), (''parent_path'', PStr ''root''),
        (''_type'', PStr ''processor''), (''config'', PDict [(''package_id'', PStr ''pkg'')])]"
      and shared = "PDict []" and dto_init = "\<lambda>kw. Inr ()" and r = None
      and e = "Processor PNone PNone (PStr ''P'') (PStr ''root'') (PStr ''processor'')
            \<lparr>package_id = PStr ''pkg'', dto = ()\<rparr> None"]
  by (simp add: ProcessGroup_init_def Processor_init_def InputPort_init_def OutputPort_init_def
      bind_kwargs_def kwarg_def build_connections_def Connection_init_def make_config_def
      Let_def)

section \<open>Path resolution and controller lookup\<close>

lemma split_no_separator: "sep \<notin> set s \<Longrightarrow> split sep s = [s]"
  by (induction s) auto

lemma split_not_Nil: "split sep s \<noteq> []"
  by (induction s) (auto split: list.splits)

lemma descend_TNone: "descend TNone (n # ns) = Inl AttributeError"
  by simp

lemma descend_last_missing:
  "target_elements tgt = Inr es \<Longrightarrow> map_of es n = None \<Longrightarrow> descend tgt [n] = Inr TNone"
  by (simp add: elements_get_def)

lemma descend_earlier_missing:
  "target_elements tgt = Inr es \<Longrightarrow> map_of es n = None \<Longrightarrow>
   descend tgt (n # m # ns) = Inl AttributeError"
  by (simp add: elements_get_def)

text \<open>
  Two runs of \<^verbatim>\<open>get_parent_element\<close>: an element \<^verbatim>\<open>B\<close> inside the process group
  \<^verbatim>\<open>A\<close> of a resolved flow, and an element whose last path segment is not resolved.
\<close>

lemma get_parent_element_nested_example:
  "get_parent_element
     (\<lparr>flow_name = PStr ''flow'', flowlib_version = PNone, version = PNone,
       flow_controllers = NoControllers,
       flow_elements =
         [(''A'', ProcessGroup PNone PNone (PStr ''A'') (PStr ''flow'') (PStr ''process_group'')
                    (PStr ''a.yaml'') (PDict []) PNone None
                    [(''B'', InputPort PNone PNone (PStr ''B'') (PStr ''flow/A'')
                               (PStr ''input_port'') None)])]\<rparr> :: (unit, unit) Flow)
     (InputPort PNone PNone (PStr ''B'') (PStr ''flow/A'') (PStr ''input_port'') None)
   = Inr (TElement
            (ProcessGroup PNone PNone (PStr ''A'') (PStr ''flow'') (PStr ''process_group'')
               (PStr ''a.yaml'') (PDict []) PNone None
               [(''B'', InputPort PNone PNone (PStr ''B'') (PStr ''flow/A'')
                          (PStr ''input_port'') None)]))"
  by (simp add: get_parent_element_def PG_NAME_DELIMETER_def elements_get_def)

lemma get_parent_element_last_missing_example:
  "get_parent_element (Flow_init :: (unit, unit) Flow)
     (InputPort PNone PNone (PStr ''in'') (PStr ''root/a'') (PStr ''input_port'') None)
   = Inr TNone"
  by (simp add: get_parent_element_def Flow_init_def PG_NAME_DELIMETER_def elements_get_def)


text \<open>
  Claim C6, at a flow with nothing resolved and an element with the breadcrumb
  \<^verbatim>\<open>'root/a/b'\<close>: the segment \<^verbatim>\<open>a\<close> is missing, \<^verbatim>\<open>target\<close> becomes \<^verbatim>\<open>None\<close>,
  and the next round of the loop reads \<^verbatim>\<open>target.elements\<close> on it, which raises
  \<^verbatim>\<open>AttributeError\<close>. Only a missing last segment yields \<^verbatim>\<open>None\<close>
  (\<open>descend_last_missing\<close>, \<open>descend_earlier_missing\<close>).
\<close>

theorem get_parent_element_missing_intermediate:
  "get_parent_element (Flow_init :: (unit, unit) Flow)
     (InputPort PNone PNone (PStr ''in'') (PStr ''root/a/b'') (PStr ''input_port'') None)
   = Inl AttributeError"
  by (simp add: get_parent_element_def Flow_init_def PG_NAME_DELIMETER_def elements_get_def)

text \<open>
  Claim C9. For an element whose \<^verbatim>\<open>parent_path\<close> is a string without the delimiter,
  the empty string included, \<^verbatim>\<open>get_parent_element\<close> returns the flow itself: the
  split has one segment, the loop over \<^verbatim>\<open>names[1:]\<close> does not run.
\<close>

theorem get_parent_element_root:
  "parent_path element = PStr s \<Longrightarrow> PG_NAME_DELIMETER \<notin> set s \<Longrightarrow>
   get_parent_element self element = Inr (TFlow self)"
  by (simp add: get_parent_element_def split_no_separator)

text \<open>The theorem at the empty breadcrumb and at the breadcrumb \<^verbatim>\<open>'root'\<close>.\<close>

theorem get_parent_element_root_witness:
  "get_parent_element (Flow_init :: (unit, unit) Flow)
     (InputPort PNone PNone (PStr ''in'') (PStr '''') (PStr ''input_port'') None)
   = Inr (TFlow Flow_init) \<and>
   get_parent_element (Flow_init :: (unit, unit) Flow)
     (OutputPort PNone PNone (PStr ''out'') (PStr ''root'') (PStr ''output_port'') None)
   = Inr (TFlow Flow_init)"
  using get_parent_element_root
     [of "InputPort PNone PNone (PStr ''in'') (PStr '''') (PStr ''input_port'') None :: unit FlowElement"
         "''''" "Flow_init :: (unit, unit) Flow"]
    get_parent_element_root
     [of "OutputPort PNone PNone (PStr ''out'') (PStr ''root'') (PStr ''output_port'') None :: unit FlowElement"
         "''root''" "Flow_init :: (unit, unit) Flow"]
  by (simp add: PG_NAME_DELIMETER_def)

text \<open>
  Claim C7, as the code has it. On a flow whose controllers are the sequence \<open>cs\<close>,
  \<^verbatim>\<open>find_controller_by_name\<close> returns the first controller of \<open>cs\<close> whose name is
  the queried string (every controller before it has another name), and raises
  \<^verbatim>\<open>IndexError\<close> when no controller of \<open>cs\<close> has that name.
\<close>

theorem find_controller_by_name_first_match:
  assumes "flow_controllers self = ControllerSeq cs"
  shows "(\<forall>pre c post. cs = pre @ c # post \<and> ctl_name c = PStr nm \<and>
            (\<forall>c' \<in> set pre. ctl_name c' \<noteq> PStr nm) \<longrightarrow>
            find_controller_by_name self nm = Inr c) \<and>
         ((\<forall>c \<in> set cs. ctl_name c \<noteq> PStr nm) \<longrightarrow>
            find_controller_by_name self nm = Inl IndexError)"
proof (intro conjI allI impI)
  fix pre c post
  assume h: "cs = pre @ c # post \<and> ctl_name c = PStr nm \<and>
            (\<forall>c' \<in> set pre. ctl_name c' \<noteq> PStr nm)"
  then have "filter (\<lambda>c. ctl_name c = PStr nm) pre = []"
    by (simp add: filter_empty_conv)
  with h have "filter (\<lambda>c. ctl_name c = PStr nm) cs
      = c # filter (\<lambda>c. ctl_name c = PStr nm) post"
    by simp
  then show "find_controller_by_name self nm = Inr c"
    using assms by (simp add: find_controller_by_name_def)
next
  assume "\<forall>c \<in> set cs. ctl_name c \<noteq> PStr nm"
  then have "filter (\<lambda>c. ctl_name c = PStr nm) cs = []"
    by (simp add: filter_empty_conv)
  then show "find_controller_by_name self nm = Inl IndexError"
    using assms by (simp add: find_controller_by_name_def)
qed


text \<open>
  The theorem at the controllers \<^verbatim>\<open>svc1\<close>, \<^verbatim>\<open>svc2\<close> and a second \<^verbatim>\<open>svc1\<close>:
  the query \<^verbatim>\<open>'svc1'\<close> returns the first one, the queries \<^verbatim>\<open>'svc3'\<close> and
  \<^verbatim>\<open>'SVC1'\<close> raise.
\<close>

theorem find_controller_by_name_first_match_witness:
  "find_controller_by_name
     (\<lparr>flow_name = PStr ''flow'', flowlib_version = PNone, version = PNone,
       flow_controllers =
         ControllerSeq [\<lparr>ctl_priv_id = PNone, ctl_priv_parent_id = PNone, ctl_name = PStr ''svc1'',
                 ctl_config = \<lparr>package_id = PStr ''pkg.a'', dto = ()\<rparr>\<rparr>,
               \<lparr>ctl_priv_id = PNone, ctl_priv_parent_id = PNone, ctl_name = PStr ''svc2'',
                 ctl_config = \<lparr>package_id = PStr ''pkg.b'', dto = ()\<rparr>\<rparr>,
               \<lparr>ctl_priv_id = PNone, ctl_priv_parent_id = PNone, ctl_name = PStr ''svc1'',
                 ctl_config = \<lparr>package_id = PStr ''pkg.c'', dto = ()\<rparr>\<rparr>],
       flow_elements = []\<rparr> :: (unit, unit) Flow) ''svc1''
   = Inr \<lparr>ctl_priv_id = PNone, ctl_priv_parent_id = PNone, ctl_name = PStr ''svc1'',
          ctl_config = \<lparr>package_id = PStr ''pkg.a'', dto = ()\<rparr>\<rparr> \<and>
   find_controller_by_name
     (\<lparr>flow_name = PStr ''flow'', flowlib_version = PNone, version = PNone,
       flow_controllers =
         ControllerSeq [\<lparr>ctl_priv_id = PNone, ctl_priv_parent_id = PNone, ctl_name = PStr ''svc1'',
                 ctl_config = \<lparr>package_id = PStr ''pkg.a'', dto = ()\<rparr>\<rparr>,
               \<lparr>ctl_priv_id = PNone, ctl_priv_parent_id = PNone, ctl_name = PStr ''svc2'',
                 ctl_config = \<lparr>package_id = PStr ''pkg.b'', dto = ()\<rparr>\<rparr>,
               \<lparr>ctl_priv_id = PNone, ctl_priv_parent_id = PNone, ctl_name = PStr ''svc1'',
                 ctl_config = \<lparr>package_id = PStr ''pkg.c'', dto = ()\<rparr>\<rparr>],
       flow_elements = []\<rparr> :: (unit, unit) Flow) ''svc3''
   = Inl IndexError \<and>
   find_controller_by_name
     (\<lparr>flow_name = PStr ''flow'', flowlib_version = PNone, version = PNone,
       flow_controllers =
         ControllerSeq [\<lparr>ctl_priv_id = PNone, ctl_priv_parent_id = PNone, ctl_name = PStr ''svc1'',
                 ctl_config = \<lparr>package_id = PStr ''pkg.a'', dto = ()\<rparr>\<rparr>,
               \<lparr>ctl_priv_id = PNone, ctl_priv_parent_id = PNone, ctl_name = PStr ''svc2'',
                 ctl_config = \<lparr>package_id = PStr ''pkg.b'', dto = ()\<rparr>\<rparr>,
               \<lparr>ctl_priv_id = PNone, ctl_priv_parent_id = PNone, ctl_name = PStr ''svc1'',
                 ctl_config = \<lparr>package_id = PStr ''pkg.c'', dto = ()\<rparr>\<rparr>],
       flow_elements = []\<rparr> :: (unit, unit) Flow) ''SVC1''
   = Inl IndexError"
  using find_controller_by_name_first_match
    [of "\<lparr>flow_name = PStr ''flow'', flowlib_version = PNone, version = PNone,
       flow_controllers =
         ControllerSeq [\<lparr>ctl_priv_id = PNone, ctl_priv_parent_id = PNone, ctl_name = PStr ''svc1'',
                 ctl_config = \<lparr>package_id = PStr ''pkg.a'', dto = ()\<rparr>\<rparr>,
               \<lparr>ctl_priv_id = PNone, ctl_priv_parent_id = PNone, ctl_name = PStr ''svc2'',
                 ctl_config = \<lparr>package_id = PStr ''pkg.b'', dto = ()\<rparr>\<rparr>,
               \<lparr>ctl_priv_id = PNone, ctl_priv_parent_id = PNone, ctl_name = PStr ''svc1'',
                 ctl_config = \<lparr>package_id = PStr ''pkg.c'', dto = ()\<rparr>\<rparr>],
       flow_elements = []\<rparr> :: (unit, unit) Flow"
       "[\<lparr>ctl_priv_id = PNone, ctl_priv_parent_id = PNone, ctl_name = PStr ''svc1'',
                 ctl_config = \<lparr>package_id = PStr ''pkg.a'', dto = ()\<rparr>\<rparr>,
               \<lparr>ctl_priv_id = PNone, ctl_priv_parent_id = PNone, ctl_name = PStr ''svc2'',
                 ctl_config = \<lparr>package_id = PStr ''pkg.b'', dto = ()\<rparr>\<rparr>,
               \<lparr>ctl_priv_id = PNone, ctl_priv_parent_id = PNone, ctl_name = PStr ''svc1'',
                 ctl_config = \<lparr>package_id = PStr ''pkg.c'', dto = ()\<rparr>\<rparr>]"
       "''svc1''"]
    find_controller_by_name_first_match
    [of "\<lparr>flow_name = PStr ''flow'', flowlib_version = PNone, version = PNone,
       flow_controllers =
         ControllerSeq [\<lparr>ctl_priv_id = PNone, ctl_priv_parent_id = PNone, ctl_name = PStr ''svc1'',
                 ctl_config = \<lparr>package_id = PStr ''pkg.a'', dto = ()\<rparr>\<rparr>,
               \<lparr>ctl_priv_id = PNone, ctl_priv_parent_id = PNone, ctl_name = PStr ''svc2'',
                 ctl_config = \<lparr>package_id = PStr ''pkg.b'', dto = ()\<rparr>\<rparr>,
               \<lparr>ctl_priv_id = PNone, ctl_priv_parent_id = PNone, ctl_name = PStr ''svc1'',
                 ctl_config = \<lparr>package_id = PStr ''pkg.c'', dto = ()\<rparr>\<rparr>],
       flow_elements = []\<rparr> :: (unit, unit) Flow"
       "[\<lparr>ctl_priv_id = PNone, ctl_priv_parent_id = PNone, ctl_name = PStr ''svc1'',
                 ctl_config = \<lparr>package_id = PStr ''pkg.a'', dto = ()\<rparr>\<rparr>,
               \<lparr>ctl_priv_id = PNone, ctl_priv_parent_id = PNone, ctl_name = PStr ''svc2'',
                 ctl_config = \<lparr>package_id = PStr ''pkg.b'', dto = ()\<rparr>\<rparr>,
               \<lparr>ctl_priv_id = PNone, ctl_priv_parent_id = PNone, ctl_name = PStr ''svc1'',
                 ctl_config = \<lparr>package_id = PStr ''pkg.c'', dto = ()\<rparr>\<rparr>]"
       "''svc3''"]
  by (simp add: find_controller_by_name_def)

text \<open>
  Claim C7 as the specification states it fails: on a flow whose controllers are the
  mapping from a name to a controller that the docstring describes, with an entry for
  \<^verbatim>\<open>svc1\<close>, the query \<^verbatim>\<open>'svc1'\<close> returns no record, the call raises
  \<^verbatim>\<open>AttributeError\<close>.
\<close>

theorem find_controller_by_name_on_mapping:
  "find_controller_by_name
     (\<lparr>flow_name = PStr ''flow'', flowlib_version = PNone, version = PNone,
       flow_controllers =
         ControllerMap
           [(''svc1'', \<lparr>ctl_priv_id = PNone, ctl_priv_parent_id = PNone, ctl_name = PStr ''svc1'',
                         ctl_config = \<lparr>package_id = PStr ''pkg.a'', dto = ()\<rparr>\<rparr>)],
       flow_elements = []\<rparr> :: (unit, unit) Flow) ''svc1''
   = Inl AttributeError"
  by (simp add: find_controller_by_name_def)

section \<open>What the constructors leave behind\<close>

text \<open>
  Every element that \<^verbatim>\<open>from_dict\<close> returns comes out of one of the four constructors,
  and every constructor of the module leaves the identities unset, so the write-once
  guards start open on each new object. Conversion of connections succeeds on an absent or
  empty argument and on records made of the parameters of \<^verbatim>\<open>Connection\<close>.
\<close>

lemma from_dict_returns_via_constructor:
  assumes "fst (from_dict dto_init shared x) = Inr e"
  shows "\<exists>kw. ProcessGroup_init shared kw = Inr e \<or> fst (Processor_init dto_init kw) = Inr e \<or>
              InputPort_init kw = Inr e \<or> OutputPort_init kw = Inr e"
proof (cases x)
  case (PDict d)
  let ?d1 = "AList.update ''_type'' (dict_get d ''type'') (AList.delete ''type'' d)"
  let ?d2 = "if truthy (dict_get ?d1 ''vars'')
             then AList.update ''_vars'' (dict_get ?d1 ''vars'') (AList.delete ''vars'' ?d1)
             else ?d1"
  from assms PDict have
    "fst (if dict_get ?d1 ''_type'' = PStr ''process_group'' then (ProcessGroup_init shared ?d2, PDict ?d2)
          else if dict_get ?d1 ''_type'' = PStr ''processor'' then
            (case Processor_init dto_init ?d1 of (r, d2) \<Rightarrow> (r, PDict d2))
          else if dict_get ?d1 ''_type'' = PStr ''input_port'' then (InputPort_init ?d1, PDict ?d1)
          else if dict_get ?d1 ''_type'' = PStr ''output_port'' then (OutputPort_init ?d1, PDict ?d1)
          else (Inl FlowLibException, PDict ?d1)) = Inr e"
    by (simp add: from_dict_def Let_def split: if_splits sum.splits bool.splits)
  then show ?thesis
    by (auto simp add: case_prod_beta split: if_splits)
next
qed (use assms in \<open>simp_all add: from_dict_def\<close>)

lemma constructed_fresh:
  "ProcessGroup_init shared kw = Inr e \<or> fst (Processor_init dto_init kw) = Inr e \<or>
   InputPort_init kw = Inr e \<or> OutputPort_init kw = Inr e \<Longrightarrow>
   priv_id e = PNone \<and> priv_parent_id e = PNone"
  by (auto simp add: ProcessGroup_init_def Processor_init_def InputPort_init_def
      OutputPort_init_def split: if_splits sum.splits prod.splits)

lemma from_dict_fresh:
  "fst (from_dict dto_init shared x) = Inr e \<Longrightarrow> priv_id e = PNone \<and> priv_parent_id e = PNone"
  using from_dict_returns_via_constructor constructed_fresh by blast

lemma Controller_init_fresh:
  "fst (Controller_init dto_init nm cfg) = Inr c \<Longrightarrow>
   ctl_priv_id c = PNone \<and> ctl_priv_parent_id c = PNone"
  by (auto simp add: Controller_init_def split: sum.splits prod.splits)

lemma ReportingTask_init_fresh:
  "fst (ReportingTask_init dto_init nm cfg) = Inr r \<Longrightarrow> rt_priv_id r = PNone"
  by (auto simp add: ReportingTask_init_def split: sum.splits prod.splits)

lemma build_connections_falsy: "\<not> truthy v \<Longrightarrow> build_connections v = Inr None"
  by (simp add: build_connections_def)

lemma Connection_init_ok:
  "fst ` set kw \<subseteq> {''name'', ''from_port'', ''to_port'', ''relationships''} \<Longrightarrow>
   ''name'' \<in> fst ` set kw \<Longrightarrow> \<exists>x. Connection_init (PDict kw) = Inr x"
  by (simp add: Connection_init_def
      bind_kwargsI [where A = "{''name'', ''from_port'', ''to_port'', ''relationships''}"])

end
